theory Spec2Isabelle
  imports Complex_Main
begin

section \<open>JavaScript values shared by the models\<close>

text \<open>
  Amounts, prices and quantities are JavaScript numbers. They are modelled as \<open>real\<close>:
  the rounding of IEEE doubles is left out, the order of the additions is kept
  (\<open>reduce\<close> is a left fold).  A field that may be \<open>null\<close> or \<open>undefined\<close> is an
  \<open>option\<close>.
\<close>

text \<open>\<open>a || b\<close> on \<open>number | null | undefined\<close>: \<open>a\<close> when it is truthy (set and non-zero),
  otherwise \<open>b\<close>.\<close>

definition js_or :: "real option \<Rightarrow> real option \<Rightarrow> real option" where
  "js_or a b = (case a of None \<Rightarrow> b | Some x \<Rightarrow> if x = 0 then b else Some x)"

section \<open>src/components/CartOverlay.tsx\<close>

record Product =
  price :: real
  discount_price :: "real option"

record CartItem =
  product :: "Product option"
  quantity :: real

text \<open>\<open>item.product?.discount_price\<close> and \<open>item.product?.price\<close>: optional chaining gives
  \<open>undefined\<close> when the product is missing.\<close>

definition chain_discount_price :: "CartItem \<Rightarrow> real option" where
  "chain_discount_price item = (case product item of None \<Rightarrow> None | Some p \<Rightarrow> discount_price p)"

definition chain_price :: "CartItem \<Rightarrow> real option" where
  "chain_price item = (case product item of None \<Rightarrow> None | Some p \<Rightarrow> Some (price p))"

text \<open>\<open>const price = item.product?.discount_price || item.product?.price || 0\<close>\<close>

definition item_price :: "CartItem \<Rightarrow> real" where
  "item_price item =
     (case js_or (js_or (chain_discount_price item) (chain_price item)) (Some 0) of
        None \<Rightarrow> 0 | Some x \<Rightarrow> x)"

text \<open>\<open>cart.reduce((acc, item) => acc + price * item.quantity, 0)\<close>\<close>

definition totalPrice :: "CartItem list \<Rightarrow> real" where
  "totalPrice cart = foldl (\<lambda>acc item. acc + item_price item * quantity item) 0 cart"

text \<open>The unit price in the words of the specification: the discount price if it is set
  and non-zero, otherwise the price, otherwise 0.\<close>

definition spec_unit_price :: "CartItem \<Rightarrow> real" where
  "spec_unit_price item =
     (case product item of
        None \<Rightarrow> 0
      | Some p \<Rightarrow>
          (case discount_price p of
             None \<Rightarrow> price p
           | Some d \<Rightarrow> if d = 0 then price p else d))"

section \<open>The database and authentication client\<close>

text \<open>
  The Supabase client is an external service.  A query resolves to \<open>{data, error}\<close> and
  does not throw; whether it fails is not decided by the program, so every query site
  takes its outcome from the environment (\<open>fault\<close>).  Tables are lists of rows.
\<close>

record db_error =
  code :: string
  err_message :: string
  instanceof_Error :: bool

text \<open>What a \<open>throw\<close> carries: an \<open>Error\<close> object with its message, or the error object
  of a query result.\<close>

datatype thrown = JsError string | DbError db_error

text \<open>\<open>error instanceof Error ? error.message : fallback\<close>\<close>

definition catch_message :: "thrown \<Rightarrow> string \<Rightarrow> string" where
  "catch_message e fallback =
     (case e of
        JsError m \<Rightarrow> m
      | DbError d \<Rightarrow> if instanceof_Error d then err_message d else fallback)"

datatype call =
  SelectCallerProfile | SelectTargetProfile | UpdateProfileRole | InsertAdminStaff
  | DeleteAdminStaff | InsertActivityLog | SelectOrders

record env =
  createClient_throws :: "thrown option"
  createStaticClient_throws :: "thrown option"
  auth_user :: "string option"
  fault :: "call \<Rightarrow> db_error option"
  now :: nat

record profile_row =
  p_id :: string
  p_role :: string

record staff_row =
  s_id :: string
  s_profile_id :: string
  s_staff_id :: string
  s_department :: string
  s_position :: string
  s_is_active :: bool

record log_row =
  l_admin_id :: string
  l_action :: string
  l_resource_type :: string
  l_resource_id :: "string option"
  l_changes :: "(string \<times> string option) list"

record order_row =
  o_total_amount :: real
  o_status :: string
  o_created_at :: string
  o_payment_status :: string

record db =
  profiles :: "profile_row list"
  admin_staff :: "staff_row list"
  admin_activity_logs :: "log_row list"
  orders :: "order_row list"

text \<open>\<open>await createClient()\<close>: the helper is not part of the sources; it returns the client
  or throws.\<close>

definition createClient :: "env \<Rightarrow> thrown + unit" where
  "createClient e = (case createClient_throws e of Some x \<Rightarrow> Inl x | None \<Rightarrow> Inr ())"

text \<open>\<open>.from("profiles").select("role").eq("id", uid).single()\<close>, the \<open>data\<close> of the result:
  the role of the one matching row; \<open>null\<close> when the query fails or when the number of
  matching rows is not one.\<close>

definition select_profile_role :: "env \<Rightarrow> call \<Rightarrow> db \<Rightarrow> string \<Rightarrow> string option" where
  "select_profile_role e c d uid =
     (case fault e c of
        Some err \<Rightarrow> None
      | None \<Rightarrow>
          (case filter (\<lambda>r. p_id r = uid) (profiles d) of
             [r] \<Rightarrow> Some (p_role r)
           | _ \<Rightarrow> None))"

text \<open>\<open>.from("profiles").update({ role }).eq("id", target)\<close>: the \<open>error\<close> of the result and
  the database afterwards.\<close>

definition update_profile_role :: "env \<Rightarrow> db \<Rightarrow> string \<Rightarrow> string \<Rightarrow> db_error option \<times> db" where
  "update_profile_role e d target r =
     (case fault e UpdateProfileRole of
        Some err \<Rightarrow> (Some err, d)
      | None \<Rightarrow>
          (None, d\<lparr>profiles :=
             map (\<lambda>row. if p_id row = target then row\<lparr>p_role := r\<rparr> else row) (profiles d)\<rparr>))"

definition unique_violation :: db_error where
  "unique_violation =
     \<lparr>code = ''23505'', err_message = ''duplicate key value violates unique constraint'',
      instanceof_Error = False\<rparr>"

text \<open>
  Modelled from the spec: the schema of \<open>admin_staff\<close> is not part of the sources.  The
  specification leaves uniqueness to the database and names the duplicate-key error;
  the insert sets the column \<open>id\<close> to the user's id, which is the key: an insert whose
  \<open>id\<close> is already present fails with PostgreSQL's unique violation 23505 and adds
  nothing.
\<close>

definition insert_admin_staff :: "env \<Rightarrow> db \<Rightarrow> staff_row \<Rightarrow> db_error option \<times> db" where
  "insert_admin_staff e d row =
     (case fault e InsertAdminStaff of
        Some err \<Rightarrow> (Some err, d)
      | None \<Rightarrow>
          if list_ex (\<lambda>r. s_id r = s_id row) (admin_staff d)
          then (Some unique_violation, d)
          else (None, d\<lparr>admin_staff := admin_staff d @ [row]\<rparr>))"

text \<open>\<open>.from("admin_staff").delete().eq("id", target)\<close>\<close>

definition delete_admin_staff :: "env \<Rightarrow> db \<Rightarrow> string \<Rightarrow> db_error option \<times> db" where
  "delete_admin_staff e d target =
     (case fault e DeleteAdminStaff of
        Some err \<Rightarrow> (Some err, d)
      | None \<Rightarrow> (None, d\<lparr>admin_staff := filter (\<lambda>r. s_id r \<noteq> target) (admin_staff d)\<rparr>))"

text \<open>\<open>.from("admin_activity_logs").insert(row)\<close>\<close>

definition insert_activity_log :: "env \<Rightarrow> db \<Rightarrow> log_row \<Rightarrow> db_error option \<times> db" where
  "insert_activity_log e d row =
     (case fault e InsertActivityLog of
        Some err \<Rightarrow> (Some err, d)
      | None \<Rightarrow> (None, d\<lparr>admin_activity_logs := admin_activity_logs d @ [row]\<rparr>))"

section \<open>Roles\<close>

datatype UserRole = customer | agent | admin | chief_admin

fun role_name :: "UserRole \<Rightarrow> string" where
  "role_name customer = ''customer''"
| "role_name agent = ''agent''"
| "role_name admin = ''admin''"
| "role_name chief_admin = ''chief_admin''"

text \<open>The object \<open>roleHierarchy\<close>, read by key; a key that is not there reads as
  \<open>undefined\<close>.\<close>

definition roleHierarchy :: "string \<Rightarrow> nat option" where
  "roleHierarchy =
     map_of [(''customer'', 0), (''agent'', 1), (''admin'', 2), (''chief_admin'', 3)]"

text \<open>\<open>a >= b\<close> on \<open>number | undefined\<close>: false as soon as one side is \<open>undefined\<close>.\<close>

definition js_ge :: "nat option \<Rightarrow> nat option \<Rightarrow> bool" where
  "js_ge a b = (case a of None \<Rightarrow> False | Some x \<Rightarrow> (case b of None \<Rightarrow> False | Some y \<Rightarrow> y \<le> x))"

section \<open>checkPermission\<close>

text \<open>The \<open>try\<close> block: \<open>Inl\<close> is a value thrown inside it.\<close>

definition checkPermission_try :: "env \<Rightarrow> db \<Rightarrow> UserRole \<Rightarrow> thrown + bool" where
  "checkPermission_try e d requiredRole =
     (case createClient e of
        Inl x \<Rightarrow> Inl x
      | Inr _ \<Rightarrow>
          (case auth_user e of
             None \<Rightarrow> Inr False
           | Some user \<Rightarrow>
               (case select_profile_role e SelectCallerProfile d user of
                  None \<Rightarrow> Inr False
                | Some r \<Rightarrow>
                    Inr (js_ge (roleHierarchy r) (roleHierarchy (role_name requiredRole))))))"

text \<open>With the \<open>catch\<close>, which logs and returns false.\<close>

definition checkPermission :: "env \<Rightarrow> db \<Rightarrow> UserRole \<Rightarrow> bool" where
  "checkPermission e d requiredRole =
     (case checkPermission_try e d requiredRole of Inl x \<Rightarrow> False | Inr b \<Rightarrow> b)"

text \<open>The hierarchy of the specification: customer(0) < agent(1) < admin(2) < chief_admin(3).\<close>

fun role_value :: "UserRole \<Rightarrow> nat" where
  "role_value customer = 0"
| "role_value agent = 1"
| "role_value admin = 2"
| "role_value chief_admin = 3"

section \<open>User management\<close>

text \<open>The value every admin action resolves to: \<open>{success, error?, message?}\<close>.\<close>

record action_result =
  success :: bool
  error :: "string option"
  message :: "string option"

definition failed :: "string \<Rightarrow> action_result" where
  "failed msg = \<lparr>success = False, error = Some msg, message = None\<rparr>"

definition succeeded :: "string \<Rightarrow> action_result" where
  "succeeded msg = \<lparr>success = True, error = None, message = Some msg\<rparr>"

text \<open>A number in a template literal: its decimal digits.\<close>

definition digit :: "nat \<Rightarrow> char" where
  "digit n = ''0123456789'' ! n"

fun dec :: "nat \<Rightarrow> string" where
  "dec n = (if n < 10 then [digit n] else dec (n div 10) @ [digit (n mod 10)])"

declare dec.simps [simp del]

text \<open>The row promoteUser inserts into \<open>admin_staff\<close>.\<close>

definition new_staff_row :: "env \<Rightarrow> string \<Rightarrow> UserRole \<Rightarrow> staff_row" where
  "new_staff_row e targetUserId newRole =
     \<lparr>s_id = targetUserId, s_profile_id = targetUserId,
      s_staff_id = ''STAFF-'' @ dec (now e),
      s_department = ''Team'',
      s_position = (if newRole = agent then ''Support Agent'' else ''Administrator''),
      s_is_active = True\<rparr>"

text \<open>
  \<open>if (newRole !== "customer") { insert; if (staffError && staffError.code !== "23505")
  throw staffError }\<close>: what is thrown, if anything, and the database afterwards.
\<close>

definition create_staff_record :: "env \<Rightarrow> db \<Rightarrow> string \<Rightarrow> UserRole \<Rightarrow> thrown option \<times> db" where
  "create_staff_record e d targetUserId newRole =
     (if newRole \<noteq> customer
      then (case insert_admin_staff e d (new_staff_row e targetUserId newRole) of
              (None, d') \<Rightarrow> (None, d')
            | (Some staffError, d') \<Rightarrow>
                if code staffError \<noteq> ''23505'' then (Some (DbError staffError), d')
                else (None, d'))
      else (None, d))"

text \<open>The \<open>try\<close> block of promoteUser.  \<open>revalidatePath\<close> only invalidates a page cache
  and has no part in the model.\<close>

definition promoteUser_try ::
  "env \<Rightarrow> db \<Rightarrow> string \<Rightarrow> UserRole \<Rightarrow> (thrown + action_result) \<times> db" where
  "promoteUser_try e d targetUserId newRole =
     (case createClient e of
        Inl x \<Rightarrow> (Inl x, d)
      | Inr _ \<Rightarrow>
          (case auth_user e of
             None \<Rightarrow> (Inr (failed ''Not authenticated''), d)
           | Some currentUser \<Rightarrow>
               if select_profile_role e SelectCallerProfile d currentUser \<noteq> Some ''chief_admin''
               then (Inr (failed ''Only chief admin can promote users''), d)
               else
                 (case update_profile_role e d targetUserId (role_name newRole) of
                    (Some profileError, d1) \<Rightarrow> (Inl (DbError profileError), d1)
                  | (None, d1) \<Rightarrow>
                      (case create_staff_record e d1 targetUserId newRole of
                         (Some x, d2) \<Rightarrow> (Inl x, d2)
                       | (None, d2) \<Rightarrow>
                           (Inr (succeeded (''User promoted to '' @ role_name newRole)),
                            snd (insert_activity_log e d2
                              \<lparr>l_admin_id = currentUser, l_action = ''user_promoted'',
                               l_resource_type = ''user'', l_resource_id = Some targetUserId,
                               l_changes = [(''new_role'', Some (role_name newRole))]\<rparr>))))))"

text \<open>With the \<open>catch\<close>: the thrown value becomes a failure result.\<close>

definition promoteUser :: "env \<Rightarrow> db \<Rightarrow> string \<Rightarrow> UserRole \<Rightarrow> action_result \<times> db" where
  "promoteUser e d targetUserId newRole =
     (case promoteUser_try e d targetUserId newRole of
        (Inl x, d') \<Rightarrow> (failed (catch_message x ''Failed to promote user''), d')
      | (Inr r, d') \<Rightarrow> (r, d'))"

text \<open>The \<open>try\<close> block of demoteUser.  The result of the delete on \<open>admin_staff\<close> and of
  the insert of the log row are not looked at.\<close>

definition demoteUser_try :: "env \<Rightarrow> db \<Rightarrow> string \<Rightarrow> (thrown + action_result) \<times> db" where
  "demoteUser_try e d targetUserId =
     (case createClient e of
        Inl x \<Rightarrow> (Inl x, d)
      | Inr _ \<Rightarrow>
          (case auth_user e of
             None \<Rightarrow> (Inr (failed ''Not authenticated''), d)
           | Some currentUser \<Rightarrow>
               if select_profile_role e SelectCallerProfile d currentUser \<noteq> Some ''chief_admin''
               then (Inr (failed ''Only chief admin can demote users''), d)
               else
                 (let oldRole = select_profile_role e SelectTargetProfile d targetUserId in
                  case update_profile_role e d targetUserId ''customer'' of
                    (Some profileError, d1) \<Rightarrow> (Inl (DbError profileError), d1)
                  | (None, d1) \<Rightarrow>
                      (let d2 = snd (delete_admin_staff e d1 targetUserId) in
                       (Inr (succeeded ''User demoted to customer''),
                        snd (insert_activity_log e d2
                          \<lparr>l_admin_id = currentUser, l_action = ''user_demoted'',
                           l_resource_type = ''user'', l_resource_id = Some targetUserId,
                           l_changes = [(''old_role'', oldRole),
                                        (''new_role'', Some ''customer'')]\<rparr>))))))"

definition demoteUser :: "env \<Rightarrow> db \<Rightarrow> string \<Rightarrow> action_result \<times> db" where
  "demoteUser e d targetUserId =
     (case demoteUser_try e d targetUserId of
        (Inl x, d') \<Rightarrow> (failed (catch_message x ''Failed to demote user''), d')
      | (Inr r, d') \<Rightarrow> (r, d'))"

section \<open>Sales statistics\<close>

datatype period = day | week | month | all

text \<open>
  The \<open>Date\<close> object belongs to the language; the three operations used are parameters.
  A date is its time value in milliseconds.  \<open>setDate_back t k\<close> is the time value after
  \<open>now.setDate(now.getDate() - k)\<close>, \<open>setMonth_back t k\<close> after
  \<open>now.setMonth(now.getMonth() - k)\<close>.
\<close>

record date_lib =
  setDate_back :: "int \<Rightarrow> int \<Rightarrow> int"
  setMonth_back :: "int \<Rightarrow> int \<Rightarrow> int"
  toISOString :: "int \<Rightarrow> string"

text \<open>The string \<open>dateFilter\<close> that getSalesStats computes before the query.\<close>

definition dateFilter :: "date_lib \<Rightarrow> env \<Rightarrow> period \<Rightarrow> string" where
  "dateFilter L e p =
     (if p \<noteq> all
      then (let startDate =
                  (case p of
                     day \<Rightarrow> setDate_back L (int (now e)) 1
                   | week \<Rightarrow> setDate_back L (int (now e)) 7
                   | month \<Rightarrow> setMonth_back L (int (now e)) 1
                   | all \<Rightarrow> 0)
            in ''created_at >= '' @ [CHR 0x27] @ toISOString L startDate @ [CHR 0x27])
      else [])"

text \<open>The columns selected from \<open>orders\<close>.\<close>

record order_sel =
  total_amount :: real
  status :: string
  created_at :: string

record sales_data =
  totalRevenue :: real
  totalOrders :: nat
  completedOrders :: nat
  orders_data :: "order_sel list"

record sales_result =
  sales_success :: bool
  sales_error :: "string option"
  sales_data :: "sales_data option"

definition createStaticClient :: "env \<Rightarrow> thrown + unit" where
  "createStaticClient e =
     (case createStaticClient_throws e of Some x \<Rightarrow> Inl x | None \<Rightarrow> Inr ())"

text \<open>\<open>.from("orders").select("total_amount, status, created_at").eq("payment_status",
  "completed")\<close>: the error, or the selected rows.\<close>

definition select_completed_orders :: "env \<Rightarrow> db \<Rightarrow> db_error + order_sel list" where
  "select_completed_orders e d =
     (case fault e SelectOrders of
        Some err \<Rightarrow> Inl err
      | None \<Rightarrow>
          Inr (map (\<lambda>r. \<lparr>total_amount = o_total_amount r, status = o_status r,
                           created_at = o_created_at r\<rparr>)
                 (filter (\<lambda>r. o_payment_status r = ''completed'') (orders d))))"

text \<open>\<open>n || 0\<close> on a number.\<close>

definition or_zero :: "'a::zero \<Rightarrow> 'a" where
  "or_zero n = (if n = 0 then 0 else n)"

text \<open>The \<open>try\<close> block of getSalesStats: the filter string is computed, the query is
  built without it.\<close>

definition getSalesStats_try :: "date_lib \<Rightarrow> env \<Rightarrow> db \<Rightarrow> period \<Rightarrow> thrown + sales_result" where
  "getSalesStats_try L e d p =
     (case createStaticClient e of
        Inl x \<Rightarrow> Inl x
      | Inr _ \<Rightarrow>
          (let dateFilter = dateFilter L e p in
           case select_completed_orders e d of
             Inl err \<Rightarrow> Inl (DbError err)
           | Inr os \<Rightarrow>
               Inr \<lparr>sales_success = True, sales_error = None,
                    sales_data = Some
                      \<lparr>totalRevenue = or_zero (foldl (\<lambda>sum ord. sum + total_amount ord) 0 os),
                       totalOrders = or_zero (length os),
                       completedOrders =
                         or_zero (length (filter (\<lambda>ord. status ord = ''delivered'') os)),
                       orders_data = os\<rparr>\<rparr>))"

definition getSalesStats :: "date_lib \<Rightarrow> env \<Rightarrow> db \<Rightarrow> period \<Rightarrow> sales_result" where
  "getSalesStats L e d p =
     (case getSalesStats_try L e d p of
        Inl x \<Rightarrow>
          \<lparr>sales_success = False, sales_error = Some ''Failed to fetch sales statistics'',
           sales_data = None\<rparr>
      | Inr r \<Rightarrow> r)"

section \<open>The FTP upload service\<close>

text \<open>\<open>process.env\<close>: a variable is a string or \<open>undefined\<close>.\<close>

record process_env =
  NAMECHEAP_FTP_HOST :: "string option"
  NAMECHEAP_FTP_PORT :: "string option"
  NAMECHEAP_FTP_USER :: "string option"
  NAMECHEAP_FTP_PASSWORD :: "string option"
  NAMECHEAP_FTP_BASE_URL :: "string option"

text \<open>\<open>port\<close> is a number, \<open>NaN\<close> being \<open>None\<close>.\<close>

record FTPConfig =
  host :: string
  port :: "int option"
  user :: string
  password :: string
  baseUrl :: string

text \<open>\<open>!v\<close> on \<open>string | undefined\<close>: true for \<open>undefined\<close> and for the empty string.\<close>

definition falsy :: "string option \<Rightarrow> bool" where
  "falsy v = (case v of None \<Rightarrow> True | Some s \<Rightarrow> s = [])"

text \<open>\<open>parseInt(s, 10)\<close>: leading white space, an optional sign, then the longest run of
  decimal digits; \<open>NaN\<close> without a digit.\<close>

definition is_digit :: "char \<Rightarrow> bool" where
  "is_digit c = (c \<in> set ''0123456789'')"

definition is_space :: "char \<Rightarrow> bool" where
  "is_space c = (c \<in> set [CHR '' '', CHR 0x09, CHR 0x0A, CHR 0x0B, CHR 0x0C, CHR 0x0D])"

definition digits_value :: "string \<Rightarrow> int" where
  "digits_value ds = foldl (\<lambda>acc c. 10 * acc + (of_char c - 48)) 0 ds"

definition parseInt :: "string \<Rightarrow> int option" where
  "parseInt s =
     (let t = dropWhile is_space s;
          (neg, u) = (case t of
                        c # cs \<Rightarrow> if c = CHR ''-'' then (True, cs)
                                  else if c = CHR ''+'' then (False, cs) else (False, t)
                      | [] \<Rightarrow> (False, t));
          ds = takeWhile is_digit u
      in if ds = [] then None
         else Some (if neg then - digits_value ds else digits_value ds))"

text \<open>\<open>baseUrl.replace(/\/$/, "")\<close>: one slash at the end of the string is removed.\<close>

definition strip_trailing_slash :: "string \<Rightarrow> string" where
  "strip_trailing_slash s = (if s \<noteq> [] \<and> last s = CHR ''/'' then butlast s else s)"

text \<open>\<open>v || d\<close> on \<open>string | undefined\<close>.\<close>

definition or_default :: "string option \<Rightarrow> string \<Rightarrow> string" where
  "or_default v d = (case v of None \<Rightarrow> d | Some s \<Rightarrow> if s = [] then d else s)"

text \<open>getFTPConfig: \<open>null\<close> when one of host, user, password and base URL is missing or
  empty; in the other branch the four are non-empty strings.\<close>

definition getFTPConfig :: "process_env \<Rightarrow> FTPConfig option" where
  "getFTPConfig pe =
     (if falsy (NAMECHEAP_FTP_HOST pe) \<or> falsy (NAMECHEAP_FTP_USER pe)
         \<or> falsy (NAMECHEAP_FTP_PASSWORD pe) \<or> falsy (NAMECHEAP_FTP_BASE_URL pe)
      then None
      else Some
        \<lparr>host = or_default (NAMECHEAP_FTP_HOST pe) [],
         port = parseInt (or_default (NAMECHEAP_FTP_PORT pe) ''21''),
         user = or_default (NAMECHEAP_FTP_USER pe) [],
         password = or_default (NAMECHEAP_FTP_PASSWORD pe) [],
         baseUrl = strip_trailing_slash (or_default (NAMECHEAP_FTP_BASE_URL pe) [])\<rparr>)"

text \<open>
  The FTP server, the file object, the clock and the random number generator are outside
  the program: whether a command fails, what \<open>Date.now()\<close> and
  \<open>Math.random().toString(36)\<close> give, is taken from the environment.  A failing command
  rejects its promise, which throws at the \<open>await\<close>.
\<close>

record ftp_env =
  connect_error :: "thrown option"
  arrayBuffer_error :: "thrown option"
  cwd_error :: "string \<Rightarrow> thrown option"
  mkdir_error :: "string \<Rightarrow> thrown option"
  put_error :: "string \<Rightarrow> thrown option"
  delete_error :: "string \<Rightarrow> thrown option"
  date_now :: nat
  random36 :: string

text \<open>What happens on the connection, in order: \<open>Ready\<close> when it is established, the
  commands sent, \<open>End\<close> for \<open>client.end()\<close>.\<close>

datatype ftp_event = Ready | Cwd string | Mkdir string | Put string | Delete string | End

record File =
  name :: string
  content :: string

record UploadResult =
  u_success :: bool
  u_url :: "string option"
  u_error :: "string option"
  u_filename :: "string option"

text \<open>\<open>s.split(sep)\<close> for a separator of one character.\<close>

fun split_str :: "char \<Rightarrow> string \<Rightarrow> string list" where
  "split_str sep [] = [[]]"
| "split_str sep (c # cs) =
     (if c = sep then [] # split_str sep cs
      else (case split_str sep cs of
              w # ws \<Rightarrow> (c # w) # ws
            | [] \<Rightarrow> [[c]]))"

text \<open>\<open>file.name.split(".").pop() || "file"\<close>: \<open>pop\<close> gives the last element, and the
  empty string is falsy.\<close>

definition fileExtension :: "string \<Rightarrow> string" where
  "fileExtension file_name =
     (let e = last (split_str (CHR ''.'') file_name) in if e = [] then ''file'' else e)"

text \<open>\<open>Math.random().toString(36).substring(2, 8)\<close>\<close>

definition randomString :: "ftp_env \<Rightarrow> string" where
  "randomString fe = take 6 (drop 2 (random36 fe))"

definition make_filename :: "ftp_env \<Rightarrow> File \<Rightarrow> string" where
  "make_filename fe file =
     dec (date_now fe) @ ''-'' @ randomString fe @ ''.'' @ fileExtension (name file)"

text \<open>\<open>connectFTP\<close>: resolves on \<open>ready\<close>, rejects on \<open>error\<close>.\<close>

definition connectFTP :: "ftp_env \<Rightarrow> (thrown + unit) \<times> ftp_event list" where
  "connectFTP fe = (case connect_error fe of Some x \<Rightarrow> (Inl x, []) | None \<Rightarrow> (Inr (), [Ready]))"

text \<open>The loop of ensureDirectoryExists over the path segments: \<open>cwd\<close>, and \<open>mkdir\<close> when
  it fails; a failing \<open>mkdir\<close> leaves the loop with what it threw.\<close>

fun mkdir_parts ::
  "ftp_env \<Rightarrow> string \<Rightarrow> string list \<Rightarrow> ftp_event list \<Rightarrow> thrown option \<times> ftp_event list" where
  "mkdir_parts fe currentPath [] tr = (None, tr)"
| "mkdir_parts fe currentPath (part # parts) tr =
     (let cp = currentPath @ ''/'' @ part in
      case cwd_error fe cp of
        None \<Rightarrow> mkdir_parts fe cp parts (tr @ [Cwd cp])
      | Some _ \<Rightarrow>
          (case mkdir_error fe cp of
             Some x \<Rightarrow> (Some x, tr @ [Cwd cp, Mkdir cp])
           | None \<Rightarrow> mkdir_parts fe cp parts (tr @ [Cwd cp, Mkdir cp])))"

text \<open>ensureDirectoryExists: what the inner loop throws is caught, logged and dropped, so
  the function always returns; the result is the commands it sent.\<close>

definition ensureDirectoryExists :: "ftp_env \<Rightarrow> string \<Rightarrow> ftp_event list \<Rightarrow> ftp_event list" where
  "ensureDirectoryExists fe directory tr =
     (case cwd_error fe directory of
        None \<Rightarrow> tr @ [Cwd directory]
      | Some _ \<Rightarrow>
          snd (mkdir_parts fe []
                 (filter (\<lambda>p. p \<noteq> []) (split_str (CHR ''/'') directory))
                 (tr @ [Cwd directory])))"

text \<open>The \<open>try\<close> block of uploadFileToFTP: what it returns or throws, whether \<open>client\<close> has
  been assigned, and the events on the connection.\<close>

definition uploadFileToFTP_try ::
  "FTPConfig \<Rightarrow> ftp_env \<Rightarrow> File \<Rightarrow> string \<Rightarrow> (thrown + UploadResult) \<times> bool \<times> ftp_event list" where
  "uploadFileToFTP_try config fe file folder =
     (let filename = make_filename fe file;
          remotePath = ''/'' @ folder @ ''/'' @ filename
      in case connectFTP fe of
           (Inl x, tr) \<Rightarrow> (Inl x, False, tr)
         | (Inr _, tr) \<Rightarrow>
             (case arrayBuffer_error fe of
                Some x \<Rightarrow> (Inl x, True, tr)
              | None \<Rightarrow>
                  (let tr1 = ensureDirectoryExists fe folder tr in
                   case put_error fe remotePath of
                     Some x \<Rightarrow> (Inl x, True, tr1 @ [Put remotePath])
                   | None \<Rightarrow>
                       (Inr \<lparr>u_success = True,
                             u_url = Some (baseUrl config @ ''/'' @ folder @ ''/'' @ filename),
                             u_error = None, u_filename = Some filename\<rparr>,
                        True, tr1 @ [Put remotePath]))))"

definition upload_failed :: "string \<Rightarrow> UploadResult" where
  "upload_failed msg = \<lparr>u_success = False, u_url = None, u_error = Some msg, u_filename = None\<rparr>"

text \<open>uploadFileToFTP with its \<open>catch\<close> and its \<open>finally\<close>, which calls \<open>client.end()\<close>
  when \<open>client\<close> has been assigned.\<close>

definition uploadFileToFTP ::
  "process_env \<Rightarrow> ftp_env \<Rightarrow> File \<Rightarrow> string \<Rightarrow> UploadResult \<times> ftp_event list" where
  "uploadFileToFTP pe fe file folder =
     (case getFTPConfig pe of
        None \<Rightarrow>
          (upload_failed ''FTP configuration is missing. Please check environment variables.'', [])
      | Some config \<Rightarrow>
          (case uploadFileToFTP_try config fe file folder of
             (outcome, client, tr) \<Rightarrow>
               ((case outcome of
                   Inl x \<Rightarrow> upload_failed (catch_message x ''Failed to upload file'')
                 | Inr r \<Rightarrow> r),
                (if client then tr @ [End] else tr))))"

text \<open>uploadMultipleFilesToFTP: one upload after the other; every call has its own
  connection.\<close>

fun uploadMultipleFilesToFTP ::
  "process_env \<Rightarrow> ftp_env \<Rightarrow> File list \<Rightarrow> string \<Rightarrow> (UploadResult \<times> ftp_event list) list" where
  "uploadMultipleFilesToFTP pe fe [] folder = []"
| "uploadMultipleFilesToFTP pe fe (file # files) folder =
     uploadFileToFTP pe fe file folder # uploadMultipleFilesToFTP pe fe files folder"

record delete_result =
  d_success :: bool
  d_error :: "string option"

definition deleteFileFromFTP_try ::
  "ftp_env \<Rightarrow> string \<Rightarrow> string \<Rightarrow> (thrown + delete_result) \<times> bool \<times> ftp_event list" where
  "deleteFileFromFTP_try fe filename folder =
     (case connectFTP fe of
        (Inl x, tr) \<Rightarrow> (Inl x, False, tr)
      | (Inr _, tr) \<Rightarrow>
          (let remotePath = ''/'' @ folder @ ''/'' @ filename in
           case delete_error fe remotePath of
             Some x \<Rightarrow> (Inl x, True, tr @ [Delete remotePath])
           | None \<Rightarrow> (Inr \<lparr>d_success = True, d_error = None\<rparr>, True, tr @ [Delete remotePath])))"

definition deleteFileFromFTP ::
  "process_env \<Rightarrow> ftp_env \<Rightarrow> string \<Rightarrow> string \<Rightarrow> delete_result \<times> ftp_event list" where
  "deleteFileFromFTP pe fe filename folder =
     (case getFTPConfig pe of
        None \<Rightarrow> (\<lparr>d_success = False, d_error = Some ''FTP configuration is missing.''\<rparr>, [])
      | Some config \<Rightarrow>
          (case deleteFileFromFTP_try fe filename folder of
             (outcome, client, tr) \<Rightarrow>
               ((case outcome of
                   Inl x \<Rightarrow>
                     \<lparr>d_success = False,
                      d_error = Some (catch_message x ''Failed to delete file'')\<rparr>
                 | Inr r \<Rightarrow> r),
                (if client then tr @ [End] else tr))))"

text \<open>The events of a call: none when no connection is established; otherwise \<open>Ready\<close>,
  commands, and \<open>End\<close> last.\<close>

definition closed_trace :: "ftp_event list \<Rightarrow> bool" where
  "closed_trace tr =
     (tr \<noteq> [] \<and> hd tr = Ready \<and> last tr = End
      \<and> count_list tr Ready = 1 \<and> count_list tr End = 1)"

section \<open>The middleware\<close>

text \<open>
  The function \<open>middleware\<close>, given the path of the request.  Which requests the
  framework hands to it is configured by \<open>config.matcher\<close>, modelled after the function.
  \<open>supabase.auth.getUser()\<close> and the query on \<open>profiles\<close> give what the environment
  says.

  What the middleware returns: \<open>res\<close> (the request goes on to the page) or a redirect
  to a path of the same origin, with its search parameters.
\<close>

datatype response = Next | Redirect string "(string \<times> string) list"

text \<open>\<open>s.startsWith(p)\<close>\<close>

definition startsWith :: "string \<Rightarrow> string \<Rightarrow> bool" where
  "startsWith s p = (take (length p) s = p)"

definition allowedRoles :: "string list" where
  "allowedRoles = [''admin'', ''agent'', ''chief_admin'']"

definition chiefAdminOnlyRoutes :: "string list" where
  "chiefAdminOnlyRoutes = [''/admin/users'', ''/admin/roles'', ''/admin/agents'']"

definition agentRestrictedRoutes :: "string list" where
  "agentRestrictedRoutes = [''/admin/audit-log'', ''/admin/sales-log'']"

definition protectedCustomerRoutes :: "string list" where
  "protectedCustomerRoutes = [''/shop/history'', ''/shop/wishlist'', ''/shop/checkout'']"

text \<open>
  The block guarded by \<open>url.pathname.startsWith("/admin") && url.pathname !== "/admin/login"\<close>.
  It returns early with a redirect (\<open>Some\<close>) or falls through (\<open>None\<close>) after the
  insert of the access log, whose failure is ignored.  \<open>user\<close> is what
  \<open>supabase.auth.getUser()\<close> gave; \<open>Array.some\<close> is \<open>list_ex\<close>.
\<close>

definition admin_guard :: "env \<Rightarrow> db \<Rightarrow> string \<Rightarrow> response option \<times> db" where
  "admin_guard e d pathname =
     (case auth_user e of
        None \<Rightarrow> (Some (Redirect ''/admin/login'' []), d)
      | Some uid \<Rightarrow>
          (let profile = select_profile_role e SelectCallerProfile d uid in
           if (case profile of None \<Rightarrow> True | Some r \<Rightarrow> r = [] \<or> r \<notin> set allowedRoles)
           then (Some (Redirect ''/'' []), d)
           else if list_ex (startsWith pathname) chiefAdminOnlyRoutes
                   \<and> profile \<noteq> Some ''chief_admin''
           then (Some (Redirect ''/admin/dashboard'' []), d)
           else if list_ex (startsWith pathname) agentRestrictedRoutes
                   \<and> profile = Some ''agent''
           then (Some (Redirect ''/admin/dashboard'' []), d)
           else (None, snd (insert_activity_log e d
                   \<lparr>l_admin_id = uid, l_action = ''dashboard_access'',
                    l_resource_type = ''admin_dashboard'', l_resource_id = None,
                    l_changes = [(''path'', Some pathname)]\<rparr>))))"

definition middleware :: "env \<Rightarrow> db \<Rightarrow> string \<Rightarrow> response \<times> db" where
  "middleware e d pathname =
     (let (early, d1) =
            (if startsWith pathname ''/admin'' \<and> pathname \<noteq> ''/admin/login''
             then admin_guard e d pathname
             else (None, d))
      in case early of
           Some r \<Rightarrow> (r, d1)
         | None \<Rightarrow>
             if list_ex (startsWith pathname) protectedCustomerRoutes \<and> auth_user e = None
             then (Redirect ''/shop/auth'' [(''redirect'', pathname)], d1)
             else (Next, d1))"

text \<open>
  \<open>config.matcher\<close>: the framework runs the middleware for the requests whose path one
  of the patterns selects and serves the others directly.  The two forms used here, in
  the framework's meaning: a pattern ending in \<open>/:path*\<close> selects the path before it and
  every path below that; a pattern without parameter selects that path only.
\<close>

definition matcher :: "string list" where
  "matcher = [''/admin/:path*'', ''/shop/history'', ''/shop/wishlist'', ''/shop/checkout'']"

definition matches :: "string \<Rightarrow> string \<Rightarrow> bool" where
  "matches pattern pathname =
     (if 7 \<le> length pattern \<and> drop (length pattern - 7) pattern = ''/:path*''
      then (let base = take (length pattern - 7) pattern
            in pathname = base \<or> startsWith pathname (base @ ''/''))
      else pathname = pattern)"

text \<open>What a request gets in the deployed application: the middleware's answer when the
  matcher selects its path, the page otherwise.\<close>

definition deployed :: "env \<Rightarrow> db \<Rightarrow> string \<Rightarrow> response \<times> db" where
  "deployed e d pathname =
     (if list_ex (\<lambda>pattern. matches pattern pathname) matcher
      then middleware e d pathname
      else (Next, d))"

section \<open>Calls and what they throw\<close>

text \<open>
  \<open>try { body } catch (error) { handler }\<close>: the value of the block, or what it throws in
  its turn.  A handler may throw like any other code, so the outcome of a function built
  from these blocks is again a value or a thrown one (\<open>Inl\<close>).  \<open>try_finally\<close> adds the
  \<open>finally\<close> block, which runs last on the state and overrides the outcome when it
  throws.
\<close>

definition catch_value :: "thrown + 'a \<Rightarrow> (thrown \<Rightarrow> thrown + 'a) \<Rightarrow> thrown + 'a" where
  "catch_value body handler = (case body of Inl x \<Rightarrow> handler x | Inr r \<Rightarrow> Inr r)"

definition try_catch ::
  "(thrown + 'a) \<times> 's \<Rightarrow> (thrown \<Rightarrow> thrown + 'a) \<Rightarrow> (thrown + 'a) \<times> 's" where
  "try_catch body handler = (catch_value (fst body) handler, snd body)"

definition try_finally ::
  "(thrown + 'a) \<times> 's \<Rightarrow> ('s \<Rightarrow> thrown option \<times> 's) \<Rightarrow> (thrown + 'a) \<times> 's" where
  "try_finally block fin =
     (case fin (snd block) of
        (Some x, s) \<Rightarrow> (Inl x, s)
      | (None, s) \<Rightarrow> (fst block, s))"

text \<open>The exported functions modelled above, as calls: the \<open>try\<close> block, the \<open>catch\<close>
  handler of the source and, for the FTP functions, the \<open>finally\<close> block.\<close>

definition checkPermission_call :: "env \<Rightarrow> db \<Rightarrow> UserRole \<Rightarrow> thrown + bool" where
  "checkPermission_call e d requiredRole =
     catch_value (checkPermission_try e d requiredRole) (\<lambda>x. Inr False)"

definition promoteUser_call ::
  "env \<Rightarrow> db \<Rightarrow> string \<Rightarrow> UserRole \<Rightarrow> (thrown + action_result) \<times> db" where
  "promoteUser_call e d targetUserId newRole =
     try_catch (promoteUser_try e d targetUserId newRole)
       (\<lambda>x. Inr (failed (catch_message x ''Failed to promote user'')))"

definition demoteUser_call :: "env \<Rightarrow> db \<Rightarrow> string \<Rightarrow> (thrown + action_result) \<times> db" where
  "demoteUser_call e d targetUserId =
     try_catch (demoteUser_try e d targetUserId)
       (\<lambda>x. Inr (failed (catch_message x ''Failed to demote user'')))"

definition getSalesStats_call :: "date_lib \<Rightarrow> env \<Rightarrow> db \<Rightarrow> period \<Rightarrow> thrown + sales_result" where
  "getSalesStats_call L e d p =
     catch_value (getSalesStats_try L e d p)
       (\<lambda>x. Inr \<lparr>sales_success = False,
                  sales_error = Some ''Failed to fetch sales statistics'',
                  sales_data = None\<rparr>)"

text \<open>\<open>finally { if (client) { client.end() } }\<close>; \<open>end\<close> queues the closing of the
  connection and does not throw.\<close>

definition client_end :: "bool \<times> ftp_event list \<Rightarrow> thrown option \<times> bool \<times> ftp_event list" where
  "client_end s = (case s of (client, tr) \<Rightarrow> (None, client, if client then tr @ [End] else tr))"

definition uploadFileToFTP_call ::
  "process_env \<Rightarrow> ftp_env \<Rightarrow> File \<Rightarrow> string \<Rightarrow> (thrown + UploadResult) \<times> bool \<times> ftp_event list" where
  "uploadFileToFTP_call pe fe file folder =
     (case getFTPConfig pe of
        None \<Rightarrow>
          (Inr (upload_failed
                  ''FTP configuration is missing. Please check environment variables.''),
           False, [])
      | Some config \<Rightarrow>
          try_finally
            (try_catch (uploadFileToFTP_try config fe file folder)
               (\<lambda>x. Inr (upload_failed (catch_message x ''Failed to upload file''))))
            client_end)"

text \<open>uploadMultipleFilesToFTP has no \<open>try\<close> block: what a call of uploadFileToFTP throws
  would leave the loop and the function.\<close>

fun uploadMultipleFilesToFTP_call ::
  "process_env \<Rightarrow> ftp_env \<Rightarrow> File list \<Rightarrow> string \<Rightarrow> thrown + UploadResult list" where
  "uploadMultipleFilesToFTP_call pe fe [] folder = Inr []"
| "uploadMultipleFilesToFTP_call pe fe (file # files) folder =
     (case fst (uploadFileToFTP_call pe fe file folder) of
        Inl x \<Rightarrow> Inl x
      | Inr result \<Rightarrow>
          (case uploadMultipleFilesToFTP_call pe fe files folder of
             Inl x \<Rightarrow> Inl x
           | Inr results \<Rightarrow> Inr (result # results)))"

definition deleteFileFromFTP_call ::
  "process_env \<Rightarrow> ftp_env \<Rightarrow> string \<Rightarrow> string \<Rightarrow> (thrown + delete_result) \<times> bool \<times> ftp_event list" where
  "deleteFileFromFTP_call pe fe filename folder =
     (case getFTPConfig pe of
        None \<Rightarrow> (Inr \<lparr>d_success = False, d_error = Some ''FTP configuration is missing.''\<rparr>,
                 False, [])
      | Some config \<Rightarrow>
          try_finally
            (try_catch (deleteFileFromFTP_try fe filename folder)
               (\<lambda>x. Inr \<lparr>d_success = False,
                          d_error = Some (catch_message x ''Failed to delete file'')\<rparr>))
            client_end)"

text \<open>
  extractFilenameFromUrl.  \<open>new URL(url).pathname\<close> belongs to the language and is a
  parameter: the path name, or what the constructor throws.  \<open>lastIndexOf\<close> is -1 when
  the character does not occur, and \<open>substring\<close> counts a negative start as 0.
\<close>

definition lastIndexOf :: "string \<Rightarrow> char \<Rightarrow> int" where
  "lastIndexOf s c =
     (if c \<in> set s then int (length s) - 1 - int (length (takeWhile (\<lambda>x. x \<noteq> c) (rev s)))
      else - 1)"

definition substring_from :: "string \<Rightarrow> int \<Rightarrow> string" where
  "substring_from s i = drop (nat i) s"

definition extractFilenameFromUrl :: "(string \<Rightarrow> thrown + string) \<Rightarrow> string \<Rightarrow> thrown + string" where
  "extractFilenameFromUrl url_pathname url =
     catch_value
       (case url_pathname url of
          Inl x \<Rightarrow> Inl x
        | Inr pathname \<Rightarrow> Inr (substring_from pathname (lastIndexOf pathname (CHR ''/'') + 1)))
       (\<lambda>x. Inr (substring_from url (lastIndexOf url (CHR ''/'') + 1)))"

section \<open>getAdminPermissions\<close>

record permissions =
  canManageUsers :: bool
  canManageProducts :: bool
  canManageOrders :: bool
  canViewAuditLogs :: bool
  canViewSalesLogs :: bool
  canManageAgents :: bool
  perm_role :: string

definition getAdminPermissions_try :: "env \<Rightarrow> db \<Rightarrow> thrown + permissions option" where
  "getAdminPermissions_try e d =
     (case createClient e of
        Inl x \<Rightarrow> Inl x
      | Inr _ \<Rightarrow>
          (case auth_user e of
             None \<Rightarrow> Inr None
           | Some uid \<Rightarrow>
               (case select_profile_role e SelectCallerProfile d uid of
                  None \<Rightarrow> Inr None
                | Some r \<Rightarrow>
                    (let isChiefAdmin = (r = ''chief_admin'');
                         isAdmin = (r = ''admin'' \<or> isChiefAdmin);
                         isAgent = (r = ''agent'' \<or> isAdmin)
                     in Inr (Some
                          \<lparr>canManageUsers = isChiefAdmin, canManageProducts = isAgent,
                           canManageOrders = isAgent, canViewAuditLogs = isAgent,
                           canViewSalesLogs = isAgent, canManageAgents = isChiefAdmin,
                           perm_role = r\<rparr>)))))"

definition getAdminPermissions :: "env \<Rightarrow> db \<Rightarrow> thrown + permissions option" where
  "getAdminPermissions e d = catch_value (getAdminPermissions_try e d) (\<lambda>x. Inr None)"

section \<open>The other admin actions\<close>

text \<open>
  The remaining admin actions are a sequence of statements sent to the database, whose
  tables and rules are not part of the sources.  They are modelled against the database
  as it answers: a statement is the chain of builder calls of the source, the reply
  \<open>{data, error}\<close> to each statement is what the environment says, and a function
  gives, with its outcome, the statements it has sent, in order.  \<open>revalidatePath\<close>, a
  call into the cache of the framework at the end of the \<open>try\<close> block, is taken to
  return, as in the model of promoteUser and demoteUser.
\<close>

datatype json =
  JNull | JBool bool | JNum real | JStr string | JArr "json list" | JObj "(string \<times> json) list"

datatype step =
  QFrom string | QSelect string | QInsert json | QUpdate json | QDelete
  | QEq string json | QOrder string bool | QLimit nat | QSingle

type_synonym statement = "step list"

record reply =
  r_data :: json
  r_error :: "db_error option"

type_synonym database = "statement \<Rightarrow> reply"

text \<open>\<open>x?.k\<close>: \<open>undefined\<close> when \<open>x\<close> is \<open>null\<close> or has no such property.\<close>

definition opt_prop :: "json \<Rightarrow> string \<Rightarrow> json option" where
  "opt_prop x k = (case x of JObj props \<Rightarrow> map_of props k | _ \<Rightarrow> None)"

text \<open>\<open>x.k\<close>: a \<open>TypeError\<close> when \<open>x\<close> is \<open>null\<close>.\<close>

definition null_property_error :: "string \<Rightarrow> thrown" where
  "null_property_error k =
     JsError (''Cannot read properties of null (reading '' @ [CHR 0x27] @ k @ [CHR 0x27] @ '')'')"

definition get_prop :: "json \<Rightarrow> string \<Rightarrow> thrown + json option" where
  "get_prop x k = (case x of JNull \<Rightarrow> Inl (null_property_error k) | _ \<Rightarrow> Inr (opt_prop x k))"

text \<open>Truthiness of a value that may be \<open>undefined\<close>.\<close>

definition truthy :: "json option \<Rightarrow> bool" where
  "truthy v =
     (case v of
        None \<Rightarrow> False
      | Some j \<Rightarrow>
          (case j of
             JNull \<Rightarrow> False
           | JBool b \<Rightarrow> b
           | JNum n \<Rightarrow> n \<noteq> 0
           | JStr s \<Rightarrow> s \<noteq> []
           | JArr _ \<Rightarrow> True
           | JObj _ \<Rightarrow> True))"

text \<open>\<open>v || null\<close>\<close>

definition or_null :: "json option \<Rightarrow> json" where
  "or_null v = (if truthy v then (case v of Some j \<Rightarrow> j | None \<Rightarrow> JNull) else JNull)"

text \<open>An object literal as it is sent: a property whose value is \<open>undefined\<close> is left
  out.\<close>

definition obj :: "(string \<times> json option) list \<Rightarrow> json" where
  "obj props =
     JObj (concat (map (\<lambda>(k, v). case v of None \<Rightarrow> [] | Some j \<Rightarrow> [(k, j)]) props))"

text \<open>\<open>{ ...x, k: v }\<close>\<close>

definition spread_with :: "json \<Rightarrow> string \<Rightarrow> json \<Rightarrow> json" where
  "spread_with x k v =
     JObj (filter (\<lambda>(k', _). k' \<noteq> k) (case x of JObj props \<Rightarrow> props | _ \<Rightarrow> []) @ [(k, v)])"

text \<open>\<open>.from("admin_activity_logs").insert({...})\<close>\<close>

definition log_statement :: "(string \<times> json option) list \<Rightarrow> statement" where
  "log_statement props = [QFrom ''admin_activity_logs'', QInsert (obj props)]"

text \<open>\<open>.from("profiles").select("role").eq("id", currentUser.id).single()\<close> and
  \<open>callerProfile?.role === "chief_admin"\<close>\<close>

definition q_caller_role :: "string \<Rightarrow> statement" where
  "q_caller_role uid = [QFrom ''profiles'', QSelect ''role'', QEq ''id'' (JStr uid), QSingle]"

definition is_chief_admin :: "database \<Rightarrow> string \<Rightarrow> bool" where
  "is_chief_admin B uid =
     (opt_prop (r_data (B (q_caller_role uid))) ''role'' = Some (JStr ''chief_admin''))"

text \<open>\<open>new Date().toISOString()\<close>\<close>

definition now_iso :: "date_lib \<Rightarrow> env \<Rightarrow> string" where
  "now_iso L e = toISOString L (int (now e))"

subsection \<open>Reading\<close>

record fetch_result =
  f_success :: bool
  f_error :: "string option"
  f_data :: json

definition fetch_failed :: "string \<Rightarrow> fetch_result" where
  "fetch_failed msg = \<lparr>f_success = False, f_error = Some msg, f_data = JNull\<rparr>"

text \<open>The common body of the reading functions: \<open>createStaticClient()\<close>, the query,
  \<open>if (error) throw error\<close>, \<open>return { success: true, data }\<close>.\<close>

definition fetch_try :: "env \<Rightarrow> database \<Rightarrow> statement \<Rightarrow> (thrown + fetch_result) \<times> statement list" where
  "fetch_try e B q =
     (case createStaticClient e of
        Inl x \<Rightarrow> (Inl x, [])
      | Inr _ \<Rightarrow>
          (case r_error (B q) of
             Some err \<Rightarrow> (Inl (DbError err), [q])
           | None \<Rightarrow> (Inr \<lparr>f_success = True, f_error = None, f_data = r_data (B q)\<rparr>, [q])))"

definition q_all_users :: statement where
  "q_all_users =
     [QFrom ''profiles'', QSelect ''id, email, full_name, role, is_active, created_at'',
      QOrder ''created_at'' False]"

definition getAllUsers :: "env \<Rightarrow> database \<Rightarrow> (thrown + fetch_result) \<times> statement list" where
  "getAllUsers e B =
     try_catch (fetch_try e B q_all_users) (\<lambda>x. Inr (fetch_failed ''Failed to fetch users''))"

text \<open>The column lists of getAllOrders and getActivityLogs are template literals over
  several lines; they are given without their white space.\<close>

definition q_all_orders :: statement where
  "q_all_orders =
     [QFrom ''orders'',
      QSelect ''*,profiles(email,full_name),order_items(*,product_id,product_name,quantity,unit_price)'',
      QOrder ''created_at'' False]"

definition getAllOrders :: "env \<Rightarrow> database \<Rightarrow> (thrown + fetch_result) \<times> statement list" where
  "getAllOrders e B =
     try_catch (fetch_try e B q_all_orders) (\<lambda>x. Inr (fetch_failed ''Failed to fetch orders''))"

definition q_activity_logs :: "nat \<Rightarrow> statement" where
  "q_activity_logs limit =
     [QFrom ''admin_activity_logs'',
      QSelect ''*,admin_staff(profile_id,position),profiles(email,full_name)'',
      QOrder ''created_at'' False, QLimit limit]"

definition getActivityLogs :: "env \<Rightarrow> database \<Rightarrow> nat \<Rightarrow> (thrown + fetch_result) \<times> statement list" where
  "getActivityLogs e B limit =
     try_catch (fetch_try e B (q_activity_logs limit))
       (\<lambda>x. Inr (fetch_failed ''Failed to fetch activity logs''))"

definition q_all_agents :: statement where
  "q_all_agents =
     [QFrom ''profiles'', QSelect ''id, email, full_name, role, is_active, created_at'',
      QEq ''role'' (JStr ''agent''), QOrder ''created_at'' False]"

definition getAllAgents :: "env \<Rightarrow> database \<Rightarrow> (thrown + fetch_result) \<times> statement list" where
  "getAllAgents e B =
     try_catch (fetch_try e B q_all_agents) (\<lambda>x. Inr (fetch_failed ''Failed to fetch agents''))"

text \<open>getSystemIssues creates the client and returns an empty list.\<close>

definition getSystemIssues :: "env \<Rightarrow> thrown + fetch_result" where
  "getSystemIssues e =
     catch_value
       (case createStaticClient e of
          Inl x \<Rightarrow> Inl x
        | Inr _ \<Rightarrow> Inr \<lparr>f_success = True, f_error = None, f_data = JArr []\<rparr>)
       (\<lambda>x. Inr (fetch_failed ''Failed to fetch issues''))"

subsection \<open>Users\<close>

definition q_delete_staff :: "string \<Rightarrow> statement" where
  "q_delete_staff target = [QFrom ''admin_staff'', QDelete, QEq ''id'' (JStr target)]"

definition q_delete_profile :: "string \<Rightarrow> statement" where
  "q_delete_profile target = [QFrom ''profiles'', QDelete, QEq ''id'' (JStr target)]"

definition deleteUser_try ::
  "env \<Rightarrow> database \<Rightarrow> string \<Rightarrow> (thrown + action_result) \<times> statement list" where
  "deleteUser_try e B targetUserId =
     (case createClient e of
        Inl x \<Rightarrow> (Inl x, [])
      | Inr _ \<Rightarrow>
          (case auth_user e of
             None \<Rightarrow> (Inr (failed ''Not authenticated''), [])
           | Some currentUser \<Rightarrow>
               if \<not> is_chief_admin B currentUser
               then (Inr (failed ''Only chief admin can delete users''),
                     [q_caller_role currentUser])
               else
                 (case r_error (B (q_delete_profile targetUserId)) of
                    Some err \<Rightarrow>
                      (Inl (DbError err),
                       [q_caller_role currentUser, q_delete_staff targetUserId,
                        q_delete_profile targetUserId])
                  | None \<Rightarrow>
                      (Inr (succeeded ''User deleted successfully''),
                       [q_caller_role currentUser, q_delete_staff targetUserId,
                        q_delete_profile targetUserId,
                        log_statement
                          [(''admin_id'', Some (JStr currentUser)),
                           (''action'', Some (JStr ''user_deleted'')),
                           (''resource_type'', Some (JStr ''user'')),
                           (''resource_id'', Some (JStr targetUserId))]]))))"

definition deleteUser ::
  "env \<Rightarrow> database \<Rightarrow> string \<Rightarrow> (thrown + action_result) \<times> statement list" where
  "deleteUser e B targetUserId =
     try_catch (deleteUser_try e B targetUserId)
       (\<lambda>x. Inr (failed (catch_message x ''Failed to delete user'')))"

definition q_target_active :: "string \<Rightarrow> statement" where
  "q_target_active target =
     [QFrom ''profiles'', QSelect ''is_active'', QEq ''id'' (JStr target), QSingle]"

text \<open>\<open>.update({ is_active: !targetProfile?.is_active }).eq("id", targetUserId)\<close>\<close>

definition q_toggle_user :: "database \<Rightarrow> string \<Rightarrow> statement" where
  "q_toggle_user B target =
     [QFrom ''profiles'',
      QUpdate (obj [(''is_active'',
         Some (JBool (\<not> truthy (opt_prop (r_data (B (q_target_active target))) ''is_active''))))]),
      QEq ''id'' (JStr target)]"

definition toggleUserStatus_try ::
  "env \<Rightarrow> database \<Rightarrow> string \<Rightarrow> (thrown + action_result) \<times> statement list" where
  "toggleUserStatus_try e B targetUserId =
     (case createClient e of
        Inl x \<Rightarrow> (Inl x, [])
      | Inr _ \<Rightarrow>
          (case auth_user e of
             None \<Rightarrow> (Inr (failed ''Not authenticated''), [])
           | Some currentUser \<Rightarrow>
               if \<not> is_chief_admin B currentUser
               then (Inr (failed ''Only chief admin can toggle user status''),
                     [q_caller_role currentUser])
               else
                 (let word =
                        (if truthy (opt_prop (r_data (B (q_target_active targetUserId)))
                                      ''is_active'')
                         then ''deactivated'' else ''activated'')
                  in case r_error (B (q_toggle_user B targetUserId)) of
                       Some err \<Rightarrow>
                         (Inl (DbError err),
                          [q_caller_role currentUser, q_target_active targetUserId,
                           q_toggle_user B targetUserId])
                     | None \<Rightarrow>
                         (Inr (succeeded (''User '' @ word)),
                          [q_caller_role currentUser, q_target_active targetUserId,
                           q_toggle_user B targetUserId,
                           log_statement
                             [(''admin_id'', Some (JStr currentUser)),
                              (''action'', Some (JStr (''user_'' @ word))),
                              (''resource_type'', Some (JStr ''user'')),
                              (''resource_id'', Some (JStr targetUserId))]]))))"

definition toggleUserStatus ::
  "env \<Rightarrow> database \<Rightarrow> string \<Rightarrow> (thrown + action_result) \<times> statement list" where
  "toggleUserStatus e B targetUserId =
     try_catch (toggleUserStatus_try e B targetUserId)
       (\<lambda>x. Inr (failed (catch_message x ''Failed to toggle user status'')))"

subsection \<open>Products and orders\<close>

record product_result = action_result +
  productId :: "json option"

definition product_failed :: "string \<Rightarrow> product_result" where
  "product_failed msg = \<lparr>success = False, error = Some msg, message = None, productId = None\<rparr>"

definition q_admin_staff :: "string \<Rightarrow> statement" where
  "q_admin_staff uid = [QFrom ''admin_staff'', QSelect ''id'', QEq ''id'' (JStr uid), QSingle]"

text \<open>\<open>productData\<close> and \<open>updates\<close> are objects: the list of their properties.\<close>

type_synonym properties = "(string \<times> json) list"

text \<open>\<open>.insert({ ...productData, created_by: adminStaff?.id || null }).select("id").single()\<close>\<close>

definition q_insert_product :: "database \<Rightarrow> string \<Rightarrow> properties \<Rightarrow> statement" where
  "q_insert_product B uid productData =
     [QFrom ''products'',
      QInsert (spread_with (JObj productData) ''created_by''
                 (or_null (opt_prop (r_data (B (q_admin_staff uid))) ''id''))),
      QSelect ''id'', QSingle]"

text \<open>createProduct reads \<open>data.id\<close> after the check of \<open>error\<close>, first when it builds the
  log row.\<close>

definition createProduct_try ::
  "env \<Rightarrow> database \<Rightarrow> properties \<Rightarrow> (thrown + product_result) \<times> statement list" where
  "createProduct_try e B productData =
     (case createClient e of
        Inl x \<Rightarrow> (Inl x, [])
      | Inr _ \<Rightarrow>
          (case auth_user e of
             None \<Rightarrow> (Inr (product_failed ''Not authenticated''), [])
           | Some uid \<Rightarrow>
               (let ins = q_insert_product B uid productData in
                case r_error (B ins) of
                  Some err \<Rightarrow> (Inl (DbError err), [q_admin_staff uid, ins])
                | None \<Rightarrow>
                    (case get_prop (r_data (B ins)) ''id'' of
                       Inl x \<Rightarrow> (Inl x, [q_admin_staff uid, ins])
                     | Inr pid \<Rightarrow>
                         (Inr \<lparr>success = True, error = None,
                               message = Some ''Product created successfully'',
                               productId = pid\<rparr>,
                          [q_admin_staff uid, ins,
                           log_statement
                             [(''admin_id'', Some (JStr uid)),
                              (''action'', Some (JStr ''product_created'')),
                              (''resource_type'', Some (JStr ''product'')),
                              (''resource_id'', pid),
                              (''changes'',
                               Some (obj [(''name'', map_of productData ''name'')]))]])))))"

definition createProduct ::
  "env \<Rightarrow> database \<Rightarrow> properties \<Rightarrow> (thrown + product_result) \<times> statement list" where
  "createProduct e B productData =
     try_catch (createProduct_try e B productData)
       (\<lambda>x. Inr (product_failed (catch_message x ''Failed to create product'')))"

text \<open>\<open>.update({ ...updates, updated_at: new Date().toISOString() }).eq("id", productId)\<close>\<close>

definition q_update_product :: "date_lib \<Rightarrow> env \<Rightarrow> string \<Rightarrow> properties \<Rightarrow> statement" where
  "q_update_product L e product_id updates =
     [QFrom ''products'', QUpdate (spread_with (JObj updates) ''updated_at'' (JStr (now_iso L e))),
      QEq ''id'' (JStr product_id)]"

definition updateProduct_try ::
  "date_lib \<Rightarrow> env \<Rightarrow> database \<Rightarrow> string \<Rightarrow> properties \<Rightarrow>
     (thrown + action_result) \<times> statement list" where
  "updateProduct_try L e B product_id updates =
     (case createClient e of
        Inl x \<Rightarrow> (Inl x, [])
      | Inr _ \<Rightarrow>
          (case auth_user e of
             None \<Rightarrow> (Inr (failed ''Not authenticated''), [])
           | Some uid \<Rightarrow>
               (case r_error (B (q_update_product L e product_id updates)) of
                  Some err \<Rightarrow> (Inl (DbError err), [q_update_product L e product_id updates])
                | None \<Rightarrow>
                    (Inr (succeeded ''Product updated successfully''),
                     [q_update_product L e product_id updates,
                      log_statement
                        [(''admin_id'', Some (JStr uid)),
                         (''action'', Some (JStr ''product_updated'')),
                         (''resource_type'', Some (JStr ''product'')),
                         (''resource_id'', Some (JStr product_id)),
                         (''changes'', Some (JObj updates))]]))))"

definition updateProduct ::
  "date_lib \<Rightarrow> env \<Rightarrow> database \<Rightarrow> string \<Rightarrow> properties \<Rightarrow>
     (thrown + action_result) \<times> statement list" where
  "updateProduct L e B product_id updates =
     try_catch (updateProduct_try L e B product_id updates)
       (\<lambda>x. Inr (failed (catch_message x ''Failed to update product'')))"

definition q_delete_product :: "string \<Rightarrow> statement" where
  "q_delete_product product_id = [QFrom ''products'', QDelete, QEq ''id'' (JStr product_id)]"

definition deleteProduct_try ::
  "env \<Rightarrow> database \<Rightarrow> string \<Rightarrow> (thrown + action_result) \<times> statement list" where
  "deleteProduct_try e B product_id =
     (case createClient e of
        Inl x \<Rightarrow> (Inl x, [])
      | Inr _ \<Rightarrow>
          (case auth_user e of
             None \<Rightarrow> (Inr (failed ''Not authenticated''), [])
           | Some uid \<Rightarrow>
               (case r_error (B (q_delete_product product_id)) of
                  Some err \<Rightarrow> (Inl (DbError err), [q_delete_product product_id])
                | None \<Rightarrow>
                    (Inr (succeeded ''Product deleted successfully''),
                     [q_delete_product product_id,
                      log_statement
                        [(''admin_id'', Some (JStr uid)),
                         (''action'', Some (JStr ''product_deleted'')),
                         (''resource_type'', Some (JStr ''product'')),
                         (''resource_id'', Some (JStr product_id))]]))))"

definition deleteProduct ::
  "env \<Rightarrow> database \<Rightarrow> string \<Rightarrow> (thrown + action_result) \<times> statement list" where
  "deleteProduct e B product_id =
     try_catch (deleteProduct_try e B product_id)
       (\<lambda>x. Inr (failed (catch_message x ''Failed to delete product'')))"

definition q_product_active :: "string \<Rightarrow> statement" where
  "q_product_active product_id =
     [QFrom ''products'', QSelect ''is_active'', QEq ''id'' (JStr product_id), QSingle]"

definition q_toggle_product :: "database \<Rightarrow> string \<Rightarrow> statement" where
  "q_toggle_product B product_id =
     [QFrom ''products'',
      QUpdate (obj [(''is_active'',
         Some (JBool (\<not> truthy (opt_prop (r_data (B (q_product_active product_id)))
                                  ''is_active''))))]),
      QEq ''id'' (JStr product_id)]"

definition toggleProductStatus_try ::
  "env \<Rightarrow> database \<Rightarrow> string \<Rightarrow> (thrown + action_result) \<times> statement list" where
  "toggleProductStatus_try e B product_id =
     (case createClient e of
        Inl x \<Rightarrow> (Inl x, [])
      | Inr _ \<Rightarrow>
          (case auth_user e of
             None \<Rightarrow> (Inr (failed ''Not authenticated''), [])
           | Some uid \<Rightarrow>
               (let word =
                      (if truthy (opt_prop (r_data (B (q_product_active product_id)))
                                    ''is_active'')
                       then ''deactivated'' else ''activated'')
                in case r_error (B (q_toggle_product B product_id)) of
                     Some err \<Rightarrow>
                       (Inl (DbError err),
                        [q_product_active product_id, q_toggle_product B product_id])
                   | None \<Rightarrow>
                       (Inr (succeeded (''Product '' @ word)),
                        [q_product_active product_id, q_toggle_product B product_id,
                         log_statement
                           [(''admin_id'', Some (JStr uid)),
                            (''action'', Some (JStr (''product_'' @ word))),
                            (''resource_type'', Some (JStr ''product'')),
                            (''resource_id'', Some (JStr product_id))]]))))"

definition toggleProductStatus ::
  "env \<Rightarrow> database \<Rightarrow> string \<Rightarrow> (thrown + action_result) \<times> statement list" where
  "toggleProductStatus e B product_id =
     try_catch (toggleProductStatus_try e B product_id)
       (\<lambda>x. Inr (failed (catch_message x ''Failed to toggle product status'')))"

text \<open>\<open>.update({ status, updated_at: new Date().toISOString() }).eq("id", orderId)\<close>\<close>

definition q_update_order :: "date_lib \<Rightarrow> env \<Rightarrow> string \<Rightarrow> string \<Rightarrow> statement" where
  "q_update_order L e orderId order_status =
     [QFrom ''orders'',
      QUpdate (obj [(''status'', Some (JStr order_status)),
                    (''updated_at'', Some (JStr (now_iso L e)))]),
      QEq ''id'' (JStr orderId)]"

definition updateOrderStatus_try ::
  "date_lib \<Rightarrow> env \<Rightarrow> database \<Rightarrow> string \<Rightarrow> string \<Rightarrow> (thrown + action_result) \<times> statement list" where
  "updateOrderStatus_try L e B orderId order_status =
     (case createClient e of
        Inl x \<Rightarrow> (Inl x, [])
      | Inr _ \<Rightarrow>
          (case auth_user e of
             None \<Rightarrow> (Inr (failed ''Not authenticated''), [])
           | Some uid \<Rightarrow>
               (case r_error (B (q_update_order L e orderId order_status)) of
                  Some err \<Rightarrow> (Inl (DbError err), [q_update_order L e orderId order_status])
                | None \<Rightarrow>
                    (Inr (succeeded (''Order status updated to '' @ order_status)),
                     [q_update_order L e orderId order_status,
                      log_statement
                        [(''admin_id'', Some (JStr uid)),
                         (''action'', Some (JStr ''order_status_updated'')),
                         (''resource_type'', Some (JStr ''order'')),
                         (''resource_id'', Some (JStr orderId)),
                         (''changes'',
                          Some (obj [(''new_status'', Some (JStr order_status))]))]]))))"

definition updateOrderStatus ::
  "date_lib \<Rightarrow> env \<Rightarrow> database \<Rightarrow> string \<Rightarrow> string \<Rightarrow> (thrown + action_result) \<times> statement list" where
  "updateOrderStatus L e B orderId order_status =
     try_catch (updateOrderStatus_try L e B orderId order_status)
       (\<lambda>x. Inr (failed (catch_message x ''Failed to update order status'')))"

section \<open>Sample environments and database states\<close>

definition no_fault :: "call \<Rightarrow> db_error option" where
  "no_fault c = None"

definition env_of :: "string option \<Rightarrow> env" where
  "env_of u =
     \<lparr>createClient_throws = None, createStaticClient_throws = None, auth_user = u,
      fault = no_fault, now = 1700000000000\<rparr>"

definition staff_u2 :: staff_row where
  "staff_u2 =
     \<lparr>s_id = ''u2'', s_profile_id = ''u2'', s_staff_id = ''STAFF-1690000000000'',
      s_department = ''Team'', s_position = ''Support Agent'', s_is_active = True\<rparr>"

definition db0 :: db where
  "db0 =
     \<lparr>profiles =
        [\<lparr>p_id = ''u1'', p_role = ''chief_admin''\<rparr>, \<lparr>p_id = ''u2'', p_role = ''agent''\<rparr>,
         \<lparr>p_id = ''u3'', p_role = ''customer''\<rparr>],
      admin_staff = [staff_u2],
      admin_activity_logs = [],
      orders = []\<rparr>"

definition fk_violation :: db_error where
  "fk_violation =
     \<lparr>code = ''23503'', err_message = ''violates foreign key constraint'',
      instanceof_Error = False\<rparr>"

text \<open>An environment in which exactly one query site fails.\<close>

definition env_failing :: "string option \<Rightarrow> call \<Rightarrow> db_error \<Rightarrow> env" where
  "env_failing u c err =
     \<lparr>createClient_throws = None, createStaticClient_throws = None, auth_user = u,
      fault = (\<lambda>c'. if c' = c then Some err else None), now = 1700000000000\<rparr>"

text \<open>A sample calendar (days of 86400000 ms, months of 30 days) and a database with
  orders placed at different times.\<close>

definition sample_dates :: date_lib where
  "sample_dates =
     \<lparr>setDate_back = (\<lambda>t k. t - k * 86400000),
      setMonth_back = (\<lambda>t k. t - k * 2592000000),
      toISOString = (\<lambda>t. dec (nat t))\<rparr>"

definition db_orders :: db where
  "db_orders =
     \<lparr>profiles = [], admin_staff = [], admin_activity_logs = [],
      orders =
        [\<lparr>o_total_amount = 100, o_status = ''delivered'',
          o_created_at = ''2021-03-01T10:00:00Z'', o_payment_status = ''completed''\<rparr>,
         \<lparr>o_total_amount = 50.5, o_status = ''pending'',
          o_created_at = ''2023-11-14T21:00:00Z'', o_payment_status = ''completed''\<rparr>,
         \<lparr>o_total_amount = 70, o_status = ''delivered'',
          o_created_at = ''2023-11-14T22:00:00Z'', o_payment_status = ''pending''\<rparr>]\<rparr>"

text \<open>A complete FTP configuration, and FTP environments in which nothing fails, in which
  the upload command fails, and in which the directory can neither be entered nor
  created.\<close>

definition sample_process_env :: process_env where
  "sample_process_env =
     \<lparr>NAMECHEAP_FTP_HOST = Some ''ftp.example.com'', NAMECHEAP_FTP_PORT = None,
      NAMECHEAP_FTP_USER = Some ''shop'', NAMECHEAP_FTP_PASSWORD = Some ''secret'',
      NAMECHEAP_FTP_BASE_URL = Some ''https://cdn.example.com/''\<rparr>"

definition ftp_ok :: ftp_env where
  "ftp_ok =
     \<lparr>connect_error = None, arrayBuffer_error = None, cwd_error = (\<lambda>p. None),
      mkdir_error = (\<lambda>p. None), put_error = (\<lambda>p. None), delete_error = (\<lambda>p. None),
      date_now = 1700000000000, random36 = ''0.4fzyo82mvyr''\<rparr>"

definition ftp_put_fails :: ftp_env where
  "ftp_put_fails = ftp_ok\<lparr>put_error := (\<lambda>p. Some (JsError ''Permission denied''))\<rparr>"

definition ftp_no_directory :: ftp_env where
  "ftp_no_directory =
     ftp_ok\<lparr>cwd_error := (\<lambda>p. Some (JsError ''No such directory'')),
            mkdir_error := (\<lambda>p. Some (JsError ''Permission denied''))\<rparr>"

text \<open>\<open>Math.random()\<close> giving 0.5, which is \<open>"0.i"\<close> in base 36.\<close>

definition ftp_random_half :: ftp_env where
  "ftp_random_half = ftp_ok\<lparr>random36 := ''0.i''\<rparr>"

text \<open>An environment whose client constructor throws, a database that knows \<open>u1\<close> as
  chief_admin and accepts every statement, and the same database rejecting one
  statement.\<close>

definition env_client_throws :: env where
  "env_client_throws =
     \<lparr>createClient_throws = Some (JsError ''no request scope''),
      createStaticClient_throws = None, auth_user = Some ''u1'', fault = no_fault,
      now = 1700000000000\<rparr>"

definition oracle_chief :: database where
  "oracle_chief q =
     (if q = q_caller_role ''u1''
      then \<lparr>r_data = JObj [(''role'', JStr ''chief_admin'')], r_error = None\<rparr>
      else \<lparr>r_data = JNull, r_error = None\<rparr>)"

definition oracle_failing :: "statement \<Rightarrow> db_error \<Rightarrow> database" where
  "oracle_failing q err =
     (\<lambda>q'. if q' = q then \<lparr>r_data = JNull, r_error = Some err\<rparr> else oracle_chief q')"

section \<open>Cart total\<close>

lemma item_price_spec: "item_price item = spec_unit_price item"
  by (simp add: item_price_def spec_unit_price_def js_or_def chain_discount_price_def
      chain_price_def split: option.splits)

lemma foldl_add_sum_list:
  fixes f :: "'a \<Rightarrow> real"
  shows "foldl (\<lambda>acc x. acc + f x) a xs = a + sum_list (map f xs)"
  by (induction xs arbitrary: a) (simp_all add: add.assoc)

text \<open>
  C10: the total shown by CartOverlay is the sum over the cart items of the unit price
  (discount price if set and non-zero, otherwise price, otherwise 0) times the quantity;
  a product whose discount price is 0 is charged at its full price, and an item without
  product contributes 0.
\<close>

theorem cart_total_is_sum:
  "totalPrice cart = (\<Sum>item\<leftarrow>cart. spec_unit_price item * quantity item)
   \<and> spec_unit_price \<lparr>product = Some \<lparr>price = p, discount_price = Some 0\<rparr>, quantity = q\<rparr> = p
   \<and> totalPrice [\<lparr>product = Some \<lparr>price = p, discount_price = Some 0\<rparr>, quantity = q\<rparr>] = p * q
   \<and> totalPrice (xs @ [\<lparr>product = None, quantity = q\<rparr>]) = totalPrice xs"
proof -
  have sum: "\<And>ys. totalPrice ys = (\<Sum>item\<leftarrow>ys. spec_unit_price item * quantity item)"
    unfolding totalPrice_def
    by (simp add: foldl_add_sum_list item_price_spec)
  show ?thesis
    by (simp add: sum spec_unit_price_def)
qed


section \<open>Permission check\<close>

lemma roleHierarchy_role_name: "roleHierarchy (role_name r) = Some (role_value r)"
  by (cases r) (simp_all add: roleHierarchy_def)

text \<open>
  C1: for an authenticated caller whose profile role is one of the four roles,
  checkPermission(requiredRole) is true exactly when the caller's role value is at least
  the required role's value; it is false when there is no authenticated user and when
  there is no profile row.
\<close>

theorem checkPermission_hierarchy:
  "(createClient_throws e = None \<longrightarrow> auth_user e = Some uid \<longrightarrow>
      select_profile_role e SelectCallerProfile d uid = Some (role_name r) \<longrightarrow>
      checkPermission e d required = (role_value required \<le> role_value r))
   \<and> (auth_user e = None \<longrightarrow> checkPermission e d required = False)
   \<and> (auth_user e = Some uid \<longrightarrow> filter (\<lambda>row. p_id row = uid) (profiles d) = [] \<longrightarrow>
        checkPermission e d required = False)"
proof (intro conjI impI)
  assume "createClient_throws e = None" "auth_user e = Some uid"
    "select_profile_role e SelectCallerProfile d uid = Some (role_name r)"
  then show "checkPermission e d required = (role_value required \<le> role_value r)"
    by (simp add: checkPermission_def checkPermission_try_def createClient_def js_ge_def
        roleHierarchy_role_name)
next
  assume "auth_user e = None"
  then show "checkPermission e d required = False"
    by (simp add: checkPermission_def checkPermission_try_def createClient_def
        split: option.splits)
next
  assume "auth_user e = Some uid" "filter (\<lambda>row. p_id row = uid) (profiles d) = []"
  then have "select_profile_role e SelectCallerProfile d uid = None"
    by (simp add: select_profile_role_def split: option.splits)
  with \<open>auth_user e = Some uid\<close> show "checkPermission e d required = False"
    by (simp add: checkPermission_def checkPermission_try_def createClient_def
        split: option.splits)
qed


theorem checkPermission_hierarchy_witness:
  "checkPermission (env_of (Some ''u2'')) db0 agent
   \<and> \<not> checkPermission (env_of (Some ''u2'')) db0 admin
   \<and> \<not> checkPermission (env_of None) db0 customer
   \<and> \<not> checkPermission (env_of (Some ''u9'')) db0 customer"
proof -
  have sel: "select_profile_role (env_of (Some ''u2'')) SelectCallerProfile db0 ''u2''
      = Some (role_name agent)"
    by (simp add: select_profile_role_def env_of_def no_fault_def db0_def)
  have none: "filter (\<lambda>row. p_id row = ''u9'') (profiles db0) = []"
    by (simp add: db0_def)
  show ?thesis
    using sel none
      checkPermission_hierarchy [of "env_of (Some ''u2'')" "''u2''" db0 agent agent]
      checkPermission_hierarchy [of "env_of (Some ''u2'')" "''u2''" db0 agent admin]
      checkPermission_hierarchy [of "env_of None" "''u2''" db0 agent customer]
      checkPermission_hierarchy [of "env_of (Some ''u9'')" "''u9''" db0 agent customer]
    by (simp add: env_of_def)
qed

section \<open>Route protection\<close>

lemma startsWith_iff: "startsWith s p = (\<exists>t. s = p @ t)"
  unfolding startsWith_def
  by (metis append_eq_conv_conj append_take_drop_id)

text \<open>
  C2: a request whose path starts with /admin/audit-log or /admin/sales-log, made by an
  authenticated user whose profile role is agent, is answered by a redirect to
  /admin/dashboard: the middleware does not return the pass-through response, and
  nothing is written.
\<close>

theorem agent_restricted_redirect:
  assumes path: "startsWith pathname ''/admin/audit-log'' \<or> startsWith pathname ''/admin/sales-log''"
    and user: "auth_user e = Some uid"
    and role: "select_profile_role e SelectCallerProfile d uid = Some ''agent''"
  shows "middleware e d pathname = (Redirect ''/admin/dashboard'' [], d)"
proof -
  from path obtain t where
    t: "pathname = ''/admin/audit-log'' @ t \<or> pathname = ''/admin/sales-log'' @ t"
    by (auto simp: startsWith_iff)
  have guard: "startsWith pathname ''/admin'' \<and> pathname \<noteq> ''/admin/login''"
    using t by (auto simp: startsWith_def)
  have restricted: "list_ex (startsWith pathname) agentRestrictedRoutes"
    using path by (simp add: agentRestrictedRoutes_def)
  have "admin_guard e d pathname = (Some (Redirect ''/admin/dashboard'' []), d)"
    using user role restricted by (simp add: admin_guard_def allowedRoles_def Let_def)
  with guard show ?thesis
    by (simp add: middleware_def)
qed

theorem agent_restricted_redirect_witness:
  "middleware (env_of (Some ''u2'')) db0 ''/admin/audit-log/2024''
     = (Redirect ''/admin/dashboard'' [], db0)"
proof -
  have path: "startsWith ''/admin/audit-log/2024'' ''/admin/audit-log''
      \<or> startsWith ''/admin/audit-log/2024'' ''/admin/sales-log''"
    by (simp add: startsWith_def)
  have user: "auth_user (env_of (Some ''u2'')) = Some ''u2''"
    by (simp add: env_of_def)
  have role: "select_profile_role (env_of (Some ''u2'')) SelectCallerProfile db0 ''u2''
      = Some ''agent''"
    by (simp add: select_profile_role_def env_of_def no_fault_def db0_def)
  show ?thesis
    by (rule agent_restricted_redirect [OF path user role])
qed


lemma matcher_selects_iff:
  "list_ex (\<lambda>pattern. matches pattern pathname) matcher \<longleftrightarrow>
     pathname = ''/admin'' \<or> startsWith pathname ''/admin/''
     \<or> pathname = ''/shop/history'' \<or> pathname = ''/shop/wishlist''
     \<or> pathname = ''/shop/checkout''"
  by (simp add: matcher_def matches_def)

text \<open>
  C5, as stated, fails at two requests without an authenticated user.  /admin/login is a
  path under /admin, and the request for it is passed through.  /shop/checkout/pay starts
  with /shop/checkout, and the matcher, which lists the three customer routes as exact
  paths, does not select it: the middleware is not run and the request is passed through.
\<close>

theorem unprotected_paths_counterexample:
  "auth_user (env_of None) = None
   \<and> startsWith ''/admin/login'' ''/admin''
   \<and> deployed (env_of None) db0 ''/admin/login'' = (Next, db0)
   \<and> startsWith ''/shop/checkout/pay'' ''/shop/checkout''
   \<and> deployed (env_of None) db0 ''/shop/checkout/pay'' = (Next, db0)"
  by (simp add: deployed_def matcher_selects_iff startsWith_def env_of_def middleware_def
      protectedCustomerRoutes_def)

text \<open>
  C5, amended: every request to a path under /admin other than /admin/login, and every
  request to the path /shop/history, /shop/wishlist or /shop/checkout, requires an
  authenticated user: without one the middleware runs and returns a redirect, to
  /admin/login for the admin paths and to /shop/auth with the search parameter redirect
  set to the path for the three customer paths, instead of passing the request through.
  The request for /admin/login is passed through.  Nothing is written in any of these
  cases.
\<close>

theorem unauthenticated_redirect:
  assumes anon: "auth_user e = None"
  shows "((pathname = ''/admin'' \<or> startsWith pathname ''/admin/'')
            \<and> pathname \<noteq> ''/admin/login'' \<longrightarrow>
            deployed e d pathname = (Redirect ''/admin/login'' [], d))
       \<and> (pathname \<in> set protectedCustomerRoutes \<longrightarrow>
            deployed e d pathname = (Redirect ''/shop/auth'' [(''redirect'', pathname)], d))
       \<and> deployed e d ''/admin/login'' = (Next, d)"
proof (intro conjI impI)
  assume adm: "(pathname = ''/admin'' \<or> startsWith pathname ''/admin/'')
      \<and> pathname \<noteq> ''/admin/login''"
  then have sel: "list_ex (\<lambda>pattern. matches pattern pathname) matcher"
    unfolding matcher_selects_iff by blast
  from adm obtain t where "pathname = ''/admin'' @ t"
    by (auto simp: startsWith_iff)
  then have "startsWith pathname ''/admin''"
    by (simp add: startsWith_def)
  with adm sel anon show "deployed e d pathname = (Redirect ''/admin/login'' [], d)"
    by (simp add: deployed_def middleware_def admin_guard_def)
next
  assume shop: "pathname \<in> set protectedCustomerRoutes"
  then have p: "pathname = ''/shop/history'' \<or> pathname = ''/shop/wishlist''
      \<or> pathname = ''/shop/checkout''"
    by (simp add: protectedCustomerRoutes_def)
  then have sel: "list_ex (\<lambda>pattern. matches pattern pathname) matcher"
    by (auto simp: matcher_selects_iff)
  from p have "\<not> startsWith pathname ''/admin''"
    and "list_ex (startsWith pathname) protectedCustomerRoutes"
    by (auto simp: startsWith_def protectedCustomerRoutes_def)
  with sel anon
  show "deployed e d pathname = (Redirect ''/shop/auth'' [(''redirect'', pathname)], d)"
    by (simp add: deployed_def middleware_def)
next
  show "deployed e d ''/admin/login'' = (Next, d)"
    by (simp add: deployed_def matcher_selects_iff middleware_def protectedCustomerRoutes_def
        startsWith_def)
qed

theorem unauthenticated_redirect_witness:
  "deployed (env_of None) db0 ''/admin/orders'' = (Redirect ''/admin/login'' [], db0)
   \<and> deployed (env_of None) db0 ''/shop/checkout''
       = (Redirect ''/shop/auth'' [(''redirect'', ''/shop/checkout'')], db0)"
proof -
  have anon: "auth_user (env_of None) = None"
    by (simp add: env_of_def)
  have adm: "(''/admin/orders'' = ''/admin'' \<or> startsWith ''/admin/orders'' ''/admin/'')
      \<and> ''/admin/orders'' \<noteq> ''/admin/login''"
    by (simp add: startsWith_def)
  have shop: "''/shop/checkout'' \<in> set protectedCustomerRoutes"
    by (simp add: protectedCustomerRoutes_def)
  show ?thesis
    using adm shop
      unauthenticated_redirect [OF anon, of "''/admin/orders''" db0]
      unauthenticated_redirect [OF anon, of "''/shop/checkout''" db0]
    by blast
qed

section \<open>Promotion and demotion\<close>

lemma distinct_key_filter_le1:
  "distinct (map f xs) \<Longrightarrow> length (filter (\<lambda>r. f r = k) xs) \<le> Suc 0"
  by (induction xs) (auto simp: filter_empty_conv image_iff)

lemma update_profile_role_staff:
  "admin_staff (snd (update_profile_role e d t r)) = admin_staff d"
  by (simp add: update_profile_role_def split: option.splits)

lemma insert_admin_staff_distinct:
  "distinct (map s_id (admin_staff d)) \<Longrightarrow>
   distinct (map s_id (admin_staff (snd (insert_admin_staff e d row))))"
  by (auto simp: insert_admin_staff_def list_ex_iff split: option.splits)

lemma insert_activity_log_staff:
  "admin_staff (snd (insert_activity_log e d row)) = admin_staff d"
  by (simp add: insert_activity_log_def split: option.splits)


lemma create_staff_record_distinct:
  "distinct (map s_id (admin_staff d)) \<Longrightarrow>
   distinct (map s_id (admin_staff (snd (create_staff_record e d t r))))"
  using insert_admin_staff_distinct [of d e "new_staff_row e t r"]
  by (auto simp: create_staff_record_def split: prod.splits option.splits)

lemma promoteUser_distinct:
  assumes key: "distinct (map s_id (admin_staff d))"
  shows "distinct (map s_id (admin_staff (snd (promoteUser e d t r))))"
proof -
  obtain pe d1 where u: "update_profile_role e d t (role_name r) = (pe, d1)"
    by (cases "update_profile_role e d t (role_name r)")
  have s1: "admin_staff d1 = admin_staff d"
    using update_profile_role_staff [of e d t "role_name r"] u by simp
  obtain x d2 where c: "create_staff_record e d1 t r = (x, d2)"
    by (cases "create_staff_record e d1 t r")
  have s2: "distinct (map s_id (admin_staff d2))"
    using create_staff_record_distinct [of d1 e t r] c s1 key by simp
  show ?thesis
    using u c s1 s2 key
    by (auto simp: promoteUser_def promoteUser_try_def insert_activity_log_staff
        split: option.splits sum.splits)
qed

text \<open>
  C3: after promoteUser(targetUserId, newRole) called by a chief_admin with a new role
  other than customer, \<open>admin_staff\<close> holds at most one row for the target (the key held
  before the call).  With no row for the target before and no failing query, the call adds
  exactly the new row.  The insert of a second row fails with the duplicate-key error
  23505; promoteUser swallows it: the result is a success and the table is as before.
  An insert error is a success exactly when its code is 23505; every other insert error
  gives \<open>{success: false}\<close>.
\<close>

theorem promoteUser_staff_rows:
  assumes key: "distinct (map s_id (admin_staff d))"
    and client: "createClient_throws e = None"
    and user: "auth_user e = Some uid"
    and chief: "select_profile_role e SelectCallerProfile d uid = Some ''chief_admin''"
    and role: "newRole \<noteq> customer"
  shows "length (filter (\<lambda>r. s_id r = target)
            (admin_staff (snd (promoteUser e d target newRole)))) \<le> 1
       \<and> (fault e UpdateProfileRole = None \<longrightarrow> fault e InsertAdminStaff = None \<longrightarrow>
            \<not> list_ex (\<lambda>r. s_id r = target) (admin_staff d) \<longrightarrow>
              admin_staff (snd (promoteUser e d target newRole))
                = admin_staff d @ [new_staff_row e target newRole])
       \<and> (fault e UpdateProfileRole = None \<longrightarrow> fault e InsertAdminStaff = None \<longrightarrow>
            list_ex (\<lambda>r. s_id r = target) (admin_staff d) \<longrightarrow>
              fst (insert_admin_staff e (snd (update_profile_role e d target (role_name newRole)))
                     (new_staff_row e target newRole)) = Some unique_violation
              \<and> code unique_violation = ''23505''
              \<and> success (fst (promoteUser e d target newRole))
              \<and> admin_staff (snd (promoteUser e d target newRole)) = admin_staff d)
       \<and> (\<forall>err. fault e UpdateProfileRole = None \<longrightarrow> fault e InsertAdminStaff = Some err \<longrightarrow>
            success (fst (promoteUser e d target newRole)) = (code err = ''23505''))"
proof (intro conjI impI allI)
  show "length (filter (\<lambda>r. s_id r = target)
            (admin_staff (snd (promoteUser e d target newRole)))) \<le> 1"
    using distinct_key_filter_le1 [OF promoteUser_distinct [OF key]] by simp
next
  assume "fault e UpdateProfileRole = None" "fault e InsertAdminStaff = None"
    "\<not> list_ex (\<lambda>r. s_id r = target) (admin_staff d)"
  then show "admin_staff (snd (promoteUser e d target newRole))
      = admin_staff d @ [new_staff_row e target newRole]"
    using client user chief role
    by (simp add: promoteUser_def promoteUser_try_def createClient_def update_profile_role_def
        create_staff_record_def insert_admin_staff_def new_staff_row_def
        insert_activity_log_staff)
next
  assume f: "fault e UpdateProfileRole = None" "fault e InsertAdminStaff = None"
    and ex: "list_ex (\<lambda>r. s_id r = target) (admin_staff d)"
  show "fst (insert_admin_staff e (snd (update_profile_role e d target (role_name newRole)))
                     (new_staff_row e target newRole)) = Some unique_violation"
    using f ex by (simp add: insert_admin_staff_def update_profile_role_def new_staff_row_def)
  show "code unique_violation = ''23505''"
    by (simp add: unique_violation_def)
  show "success (fst (promoteUser e d target newRole))"
    using f ex client user chief role
    by (simp add: promoteUser_def promoteUser_try_def createClient_def update_profile_role_def
        create_staff_record_def insert_admin_staff_def new_staff_row_def unique_violation_def
        succeeded_def)
  show "admin_staff (snd (promoteUser e d target newRole)) = admin_staff d"
    using f ex client user chief role
    by (simp add: promoteUser_def promoteUser_try_def createClient_def update_profile_role_def
        create_staff_record_def insert_admin_staff_def new_staff_row_def unique_violation_def
        insert_activity_log_staff)
next
  fix err
  assume "fault e UpdateProfileRole = None" "fault e InsertAdminStaff = Some err"
  then show "success (fst (promoteUser e d target newRole)) = (code err = ''23505'')"
    using client user chief role
    by (simp add: promoteUser_def promoteUser_try_def createClient_def update_profile_role_def
        create_staff_record_def insert_admin_staff_def succeeded_def failed_def)
qed

theorem promoteUser_staff_rows_witness:
  "length (filter (\<lambda>r. s_id r = ''u2'')
      (admin_staff (snd (promoteUser (env_of (Some ''u1'')) db0 ''u2'' agent)))) \<le> 1
   \<and> success (fst (promoteUser (env_of (Some ''u1'')) db0 ''u2'' agent))
   \<and> admin_staff (snd (promoteUser (env_of (Some ''u1'')) db0 ''u2'' agent)) = [staff_u2]
   \<and> admin_staff (snd (promoteUser (env_of (Some ''u1'')) db0 ''u3'' admin))
       = [staff_u2, new_staff_row (env_of (Some ''u1'')) ''u3'' admin]
   \<and> \<not> success (fst (promoteUser
         (env_failing (Some ''u1'') InsertAdminStaff fk_violation) db0 ''u3'' agent))"
proof -
  have key: "distinct (map s_id (admin_staff db0))"
    by (simp add: db0_def)
  have client: "createClient_throws (env_of (Some ''u1'')) = None"
    and user: "auth_user (env_of (Some ''u1'')) = Some ''u1''"
    and chief: "select_profile_role (env_of (Some ''u1'')) SelectCallerProfile db0 ''u1''
        = Some ''chief_admin''"
    by (simp_all add: env_of_def select_profile_role_def no_fault_def db0_def)
  have client': "createClient_throws (env_failing (Some ''u1'') InsertAdminStaff fk_violation) = None"
    and user': "auth_user (env_failing (Some ''u1'') InsertAdminStaff fk_violation) = Some ''u1''"
    and chief': "select_profile_role (env_failing (Some ''u1'') InsertAdminStaff fk_violation)
        SelectCallerProfile db0 ''u1'' = Some ''chief_admin''"
    by (simp_all add: env_failing_def select_profile_role_def db0_def)
  have f1: "fault (env_of (Some ''u1'')) UpdateProfileRole = None"
    and f2: "fault (env_of (Some ''u1'')) InsertAdminStaff = None"
    and f3: "fault (env_failing (Some ''u1'') InsertAdminStaff fk_violation) UpdateProfileRole = None"
    and f4: "fault (env_failing (Some ''u1'') InsertAdminStaff fk_violation) InsertAdminStaff
       = Some fk_violation"
    and f5: "code fk_violation \<noteq> ''23505''"
    by (simp_all add: env_of_def no_fault_def env_failing_def fk_violation_def)
  have r1: "list_ex (\<lambda>r. s_id r = ''u2'') (admin_staff db0)"
    and r2: "\<not> list_ex (\<lambda>r. s_id r = ''u3'') (admin_staff db0)"
    and r3: "admin_staff db0 = [staff_u2]"
    by (simp_all add: db0_def staff_u2_def)
  have agent: "agent \<noteq> customer" and admin: "admin \<noteq> customer"
    by simp_all
  note A = promoteUser_staff_rows [OF key client user chief agent, of "''u2''"]
  note B = promoteUser_staff_rows [OF key client user chief admin, of "''u3''"]
  note C = promoteUser_staff_rows [OF key client' user' chief' agent, of "''u3''"]
  have a1: "length (filter (\<lambda>r. s_id r = ''u2'')
      (admin_staff (snd (promoteUser (env_of (Some ''u1'')) db0 ''u2'' agent)))) \<le> 1"
    using A by (rule conjunct1)
  have a2: "success (fst (promoteUser (env_of (Some ''u1'')) db0 ''u2'' agent))
     \<and> admin_staff (snd (promoteUser (env_of (Some ''u1'')) db0 ''u2'' agent)) = [staff_u2]"
    using A f1 f2 r1 r3 by metis
  have b: "admin_staff (snd (promoteUser (env_of (Some ''u1'')) db0 ''u3'' admin))
       = [staff_u2, new_staff_row (env_of (Some ''u1'')) ''u3'' admin]"
    using B f1 f2 r2 r3 by (metis append_Cons append_Nil)
  have c: "\<not> success (fst (promoteUser
         (env_failing (Some ''u1'') InsertAdminStaff fk_violation) db0 ''u3'' agent))"
    using C f3 f4 f5 by metis
  show ?thesis
    using a1 a2 b c by blast
qed





section \<open>Sales statistics and the period\<close>

lemma or_zero_id: "or_zero n = n"
  by (simp add: or_zero_def)

text \<open>
  C9: the result of getSalesStats(period) does not depend on the period: for a fixed
  database and environment any two periods give the same result, although the computed
  filter string differs (it is empty for "all" only); the filter is not part of the
  query.  When the query succeeds, orders are all orders with payment_status
  "completed", totalRevenue is the sum of their amounts, totalOrders their number and
  completedOrders the number of those with status "delivered".
\<close>

theorem getSalesStats_ignores_period:
  "getSalesStats L e d p1 = getSalesStats L e d p2
   \<and> dateFilter L e all = [] \<and> dateFilter L e day \<noteq> []
   \<and> (createStaticClient_throws e = None \<longrightarrow> fault e SelectOrders = None \<longrightarrow>
        getSalesStats L e d p1 =
          \<lparr>sales_success = True, sales_error = None,
           sales_data = Some
             \<lparr>totalRevenue =
                (\<Sum>r\<leftarrow>filter (\<lambda>r. o_payment_status r = ''completed'') (orders d).
                   o_total_amount r),
              totalOrders =
                length (filter (\<lambda>r. o_payment_status r = ''completed'') (orders d)),
              completedOrders =
                length (filter (\<lambda>r. o_status r = ''delivered'')
                  (filter (\<lambda>r. o_payment_status r = ''completed'') (orders d))),
              orders_data =
                map (\<lambda>r. \<lparr>total_amount = o_total_amount r, status = o_status r,
                             created_at = o_created_at r\<rparr>)
                  (filter (\<lambda>r. o_payment_status r = ''completed'') (orders d))\<rparr>\<rparr>)"
proof (intro conjI impI)
  show "getSalesStats L e d p1 = getSalesStats L e d p2"
    by (cases "createStaticClient e") (simp_all add: getSalesStats_def getSalesStats_try_def Let_def)
  show "dateFilter L e all = []" "dateFilter L e day \<noteq> []"
    by (simp_all add: dateFilter_def)
next
  assume ok: "createStaticClient_throws e = None" "fault e SelectOrders = None"
  let ?completed = "filter (\<lambda>r. o_payment_status r = ''completed'') (orders d)"
  let ?sel = "map (\<lambda>r. \<lparr>total_amount = o_total_amount r, status = o_status r,
      created_at = o_created_at r\<rparr>) ?completed"
  have sel: "select_completed_orders e d = Inr ?sel"
    using ok by (simp add: select_completed_orders_def)
  have rev: "foldl (\<lambda>sum ord. sum + total_amount ord) 0 ?sel
      = (\<Sum>r\<leftarrow>?completed. o_total_amount r)"
    by (simp add: foldl_add_sum_list comp_def)
  have cnt: "length (filter (\<lambda>ord. status ord = ''delivered'') ?sel)
      = length (filter (\<lambda>r. o_status r = ''delivered'') ?completed)"
    by (simp add: filter_map comp_def)
  show "getSalesStats L e d p1 =
          \<lparr>sales_success = True, sales_error = None,
           sales_data = Some
             \<lparr>totalRevenue = (\<Sum>r\<leftarrow>?completed. o_total_amount r),
              totalOrders = length ?completed,
              completedOrders = length (filter (\<lambda>r. o_status r = ''delivered'') ?completed),
              orders_data = ?sel\<rparr>\<rparr>"
    using ok
    by (simp only: getSalesStats_def getSalesStats_try_def createStaticClient_def sel rev cnt
        or_zero_id Let_def option.case sum.case length_map)
qed

theorem getSalesStats_ignores_period_witness:
  "getSalesStats sample_dates (env_of None) db_orders day
     = getSalesStats sample_dates (env_of None) db_orders all
   \<and> getSalesStats sample_dates (env_of None) db_orders day
     = \<lparr>sales_success = True, sales_error = None,
        sales_data = Some
          \<lparr>totalRevenue = 150.5, totalOrders = 2, completedOrders = 1,
           orders_data =
             [\<lparr>total_amount = 100, status = ''delivered'', created_at = ''2021-03-01T10:00:00Z''\<rparr>,
              \<lparr>total_amount = 50.5, status = ''pending'',
               created_at = ''2023-11-14T21:00:00Z''\<rparr>]\<rparr>\<rparr>"
proof -
  have ok: "createStaticClient_throws (env_of None) = None"
    "fault (env_of None) SelectOrders = None"
    by (simp_all add: env_of_def no_fault_def)
  have vals:
    "(\<Sum>r\<leftarrow>filter (\<lambda>r. o_payment_status r = ''completed'') (orders db_orders).
        o_total_amount r) = 150.5"
    "length (filter (\<lambda>r. o_payment_status r = ''completed'') (orders db_orders)) = 2"
    "length (filter (\<lambda>r. o_status r = ''delivered'')
       (filter (\<lambda>r. o_payment_status r = ''completed'') (orders db_orders))) = 1"
    "map (\<lambda>r. \<lparr>total_amount = o_total_amount r, status = o_status r,
                 created_at = o_created_at r\<rparr>)
       (filter (\<lambda>r. o_payment_status r = ''completed'') (orders db_orders))
     = [\<lparr>total_amount = 100, status = ''delivered'', created_at = ''2021-03-01T10:00:00Z''\<rparr>,
        \<lparr>total_amount = 50.5, status = ''pending'', created_at = ''2023-11-14T21:00:00Z''\<rparr>]"
    by (simp_all add: db_orders_def)
  note A = getSalesStats_ignores_period
    [of sample_dates "env_of None" db_orders day all, unfolded vals]
  show ?thesis
    using A ok by blast
qed

section \<open>The FTP connection is closed\<close>

lemma mkdir_parts_trace:
  "\<exists>cmds. snd (mkdir_parts fe cp parts tr) = tr @ cmds \<and> End \<notin> set cmds \<and> Ready \<notin> set cmds"
proof (induction parts arbitrary: cp tr)
  case Nil
  then show ?case by simp
next
  case (Cons part parts)
  let ?cp = "cp @ ''/'' @ part"
  show ?case
  proof (cases "cwd_error fe ?cp")
    case None
    from Cons.IH [of ?cp "tr @ [Cwd ?cp]"] obtain cmds where
      "snd (mkdir_parts fe ?cp parts (tr @ [Cwd ?cp])) = (tr @ [Cwd ?cp]) @ cmds"
      "End \<notin> set cmds" "Ready \<notin> set cmds"
      by blast
    with None show ?thesis
      by (intro exI [of _ "Cwd ?cp # cmds"]) (simp add: Let_def)
  next
    case (Some x)
    show ?thesis
    proof (cases "mkdir_error fe ?cp")
      case None
      from Cons.IH [of ?cp "tr @ [Cwd ?cp, Mkdir ?cp]"] obtain cmds where
        "snd (mkdir_parts fe ?cp parts (tr @ [Cwd ?cp, Mkdir ?cp]))
           = (tr @ [Cwd ?cp, Mkdir ?cp]) @ cmds"
        "End \<notin> set cmds" "Ready \<notin> set cmds"
        by blast
      with None Some show ?thesis
        by (intro exI [of _ "Cwd ?cp # Mkdir ?cp # cmds"]) (simp add: Let_def)
    next
      case (Some y)
      with \<open>cwd_error fe ?cp = Some x\<close> show ?thesis
        by (intro exI [of _ "[Cwd ?cp, Mkdir ?cp]"]) (simp add: Let_def)
    qed
  qed
qed

lemma ensureDirectoryExists_trace:
  "\<exists>cmds. ensureDirectoryExists fe directory tr = tr @ cmds
      \<and> End \<notin> set cmds \<and> Ready \<notin> set cmds"
proof (cases "cwd_error fe directory")
  case None
  then show ?thesis
    by (intro exI [of _ "[Cwd directory]"]) (simp add: ensureDirectoryExists_def)
next
  case (Some x)
  from mkdir_parts_trace [of fe "[]" "filter (\<lambda>p. p \<noteq> []) (split_str (CHR ''/'') directory)"
    "tr @ [Cwd directory]"]
  obtain cmds where
    "snd (mkdir_parts fe [] (filter (\<lambda>p. p \<noteq> []) (split_str (CHR ''/'') directory))
       (tr @ [Cwd directory])) = (tr @ [Cwd directory]) @ cmds"
    "End \<notin> set cmds" "Ready \<notin> set cmds"
    by blast
  with Some show ?thesis
    by (intro exI [of _ "Cwd directory # cmds"]) (simp add: ensureDirectoryExists_def)
qed

lemma closed_traceI:
  "End \<notin> set cmds \<Longrightarrow> Ready \<notin> set cmds \<Longrightarrow> closed_trace (Ready # cmds @ [End])"
  by (simp add: closed_trace_def count_list_0_iff)

lemma upload_try_trace:
  "\<exists>cmds. snd (snd (uploadFileToFTP_try config fe file folder))
       = (if fst (snd (uploadFileToFTP_try config fe file folder)) then Ready # cmds else [])
     \<and> End \<notin> set cmds \<and> Ready \<notin> set cmds
     \<and> fst (snd (uploadFileToFTP_try config fe file folder)) = (connect_error fe = None)"
proof (cases "connect_error fe")
  case (Some x)
  then show ?thesis
    by (intro exI [of _ "[]"]) (simp add: uploadFileToFTP_try_def connectFTP_def Let_def)
next
  case None
  note conn = None
  show ?thesis
  proof (cases "arrayBuffer_error fe")
    case (Some x)
    with conn show ?thesis
      by (intro exI [of _ "[]"]) (simp add: uploadFileToFTP_try_def connectFTP_def Let_def)
  next
    case None
    from ensureDirectoryExists_trace [of fe folder "[Ready]"] obtain cmds where
      c: "ensureDirectoryExists fe folder [Ready] = [Ready] @ cmds"
      "End \<notin> set cmds" "Ready \<notin> set cmds"
      by blast
    let ?p = "''/'' @ folder @ ''/'' @ make_filename fe file"
    from conn None c show ?thesis
      by (intro exI [of _ "cmds @ [Put ?p]"])
        (simp add: uploadFileToFTP_try_def connectFTP_def Let_def split: option.splits)
  qed
qed

lemma upload_trace:
  "snd (uploadFileToFTP pe fe file folder) = []
     \<and> (getFTPConfig pe = None \<or> connect_error fe \<noteq> None)
   \<or> closed_trace (snd (uploadFileToFTP pe fe file folder))
     \<and> getFTPConfig pe \<noteq> None \<and> connect_error fe = None"
proof (cases "getFTPConfig pe")
  case None
  then show ?thesis by (simp add: uploadFileToFTP_def)
next
  case (Some config)
  obtain outcome client tr where
    t: "uploadFileToFTP_try config fe file folder = (outcome, client, tr)"
    by (cases "uploadFileToFTP_try config fe file folder") auto
  from upload_try_trace [of config fe "file" folder] t obtain cmds where
    c: "tr = (if client then Ready # cmds else [])" "End \<notin> set cmds" "Ready \<notin> set cmds"
    "client = (connect_error fe = None)"
    by auto
  show ?thesis
  proof (cases client)
    case True
    with c closed_traceI [of cmds] Some t show ?thesis
      by (simp add: uploadFileToFTP_def)
  next
    case False
    with c have "tr = []" "connect_error fe \<noteq> None"
      by simp_all
    with False Some t show ?thesis
      by (simp add: uploadFileToFTP_def)
  qed
qed

lemma delete_trace:
  "snd (deleteFileFromFTP pe fe filename folder) = []
     \<and> (getFTPConfig pe = None \<or> connect_error fe \<noteq> None)
   \<or> closed_trace (snd (deleteFileFromFTP pe fe filename folder))
     \<and> getFTPConfig pe \<noteq> None \<and> connect_error fe = None"
proof (cases "getFTPConfig pe")
  case None
  then show ?thesis by (simp add: deleteFileFromFTP_def)
next
  case (Some config)
  show ?thesis
  proof (cases "connect_error fe")
    case None
    have "closed_trace (Ready # [Delete (''/'' @ folder @ ''/'' @ filename)] @ [End])"
      by (rule closed_traceI) simp_all
    with None Some show ?thesis
      by (simp add: deleteFileFromFTP_def deleteFileFromFTP_try_def connectFTP_def Let_def
          split: option.splits)
  next
    case (Some x)
    with \<open>getFTPConfig pe = Some config\<close> show ?thesis
      by (simp add: deleteFileFromFTP_def deleteFileFromFTP_try_def connectFTP_def)
  qed
qed

text \<open>
  C8: in every call of uploadFileToFTP or deleteFileFromFTP in which a connection is
  established (the event \<open>Ready\<close>), \<open>client.end()\<close> is called before the function returns,
  whatever fails afterwards: the events of the call start with \<open>Ready\<close>, end with \<open>End\<close>,
  and hold each of them once.  A connection is established exactly when the configuration
  is complete and the connect succeeds.
\<close>

theorem ftp_connection_closed:
  "(Ready \<in> set (snd (uploadFileToFTP pe fe file folder)) \<longrightarrow>
      closed_trace (snd (uploadFileToFTP pe fe file folder)))
   \<and> (Ready \<in> set (snd (deleteFileFromFTP pe fe filename folder)) \<longrightarrow>
      closed_trace (snd (deleteFileFromFTP pe fe filename folder)))
   \<and> (Ready \<in> set (snd (uploadFileToFTP pe fe file folder))
        \<longleftrightarrow> getFTPConfig pe \<noteq> None \<and> connect_error fe = None)
   \<and> (Ready \<in> set (snd (deleteFileFromFTP pe fe filename folder))
        \<longleftrightarrow> getFTPConfig pe \<noteq> None \<and> connect_error fe = None)"
proof -
  let ?up = "snd (uploadFileToFTP pe fe file folder)"
  let ?del = "snd (deleteFileFromFTP pe fe filename folder)"
  let ?conn = "getFTPConfig pe \<noteq> None \<and> connect_error fe = None"
  have ready: "\<And>tr. closed_trace tr \<Longrightarrow> Ready \<in> set tr"
    by (metis closed_trace_def hd_in_set)
  have up: "(Ready \<in> set ?up \<longrightarrow> closed_trace ?up) \<and> (Ready \<in> set ?up \<longleftrightarrow> ?conn)"
  proof (cases ?conn)
    case True
    with upload_trace [of pe fe "file" folder] have "closed_trace ?up"
      by auto
    with True ready [of ?up] show ?thesis
      by blast
  next
    case False
    with upload_trace [of pe fe "file" folder] have "?up = []"
      by auto
    with False show ?thesis
      by simp
  qed
  have del: "(Ready \<in> set ?del \<longrightarrow> closed_trace ?del) \<and> (Ready \<in> set ?del \<longleftrightarrow> ?conn)"
  proof (cases ?conn)
    case True
    with delete_trace [of pe fe filename folder] have "closed_trace ?del"
      by auto
    with True ready [of ?del] show ?thesis
      by blast
  next
    case False
    with delete_trace [of pe fe filename folder] have "?del = []"
      by auto
    with False show ?thesis
      by simp
  qed
  from up del show ?thesis
    by blast
qed

theorem ftp_connection_closed_witness:
  "snd (uploadFileToFTP sample_process_env ftp_put_fails \<lparr>name = ''a.png'', content = ''x''\<rparr>
      ''products'')
     = [Ready, Cwd ''products'',
        Put (''/products/'' @ make_filename ftp_put_fails \<lparr>name = ''a.png'', content = ''x''\<rparr>),
        End]
   \<and> \<not> u_success (fst (uploadFileToFTP sample_process_env ftp_put_fails
          \<lparr>name = ''a.png'', content = ''x''\<rparr> ''products''))
   \<and> closed_trace (snd (uploadFileToFTP sample_process_env ftp_put_fails
          \<lparr>name = ''a.png'', content = ''x''\<rparr> ''products''))
   \<and> closed_trace (snd (deleteFileFromFTP sample_process_env ftp_ok ''a.png'' ''products''))"
proof -
  have cfg: "getFTPConfig sample_process_env \<noteq> None"
    by (simp add: getFTPConfig_def sample_process_env_def falsy_def)
  have conn: "connect_error ftp_put_fails = None" "connect_error ftp_ok = None"
    by (simp_all add: ftp_put_fails_def ftp_ok_def)
  have tr: "snd (uploadFileToFTP sample_process_env ftp_put_fails
        \<lparr>name = ''a.png'', content = ''x''\<rparr> ''products'')
     = [Ready, Cwd ''products'',
        Put (''/products/'' @ make_filename ftp_put_fails \<lparr>name = ''a.png'', content = ''x''\<rparr>),
        End]"
    and res: "\<not> u_success (fst (uploadFileToFTP sample_process_env ftp_put_fails
          \<lparr>name = ''a.png'', content = ''x''\<rparr> ''products''))"
    using cfg
    by (auto simp: uploadFileToFTP_def uploadFileToFTP_try_def connectFTP_def
        ensureDirectoryExists_def ftp_put_fails_def ftp_ok_def upload_failed_def Let_def)
  show ?thesis
    using tr res cfg conn
      ftp_connection_closed [of sample_process_env ftp_put_fails
        "\<lparr>name = ''a.png'', content = ''x''\<rparr>" "''products''" "''a.png''"]
      ftp_connection_closed [of sample_process_env ftp_ok
        "\<lparr>name = ''a.png'', content = ''x''\<rparr>" "''products''" "''a.png''"]
    by blast
qed

section \<open>The URL of an uploaded file\<close>

lemma split_str_nonempty: "split_str c s \<noteq> []"
  by (induction s) (auto split: list.splits)

lemma split_str_no_sep: "c \<notin> set s \<Longrightarrow> split_str c s = [s]"
  by (induction s) auto

lemma split_str_after_last_sep:
  "c \<notin> set b \<Longrightarrow> last (split_str c (a @ c # b)) = b \<and> 2 \<le> length (split_str c (a @ c # b))"
proof (induction a)
  case Nil
  then show ?case by (simp add: split_str_no_sep)
next
  case (Cons x a)
  then have ih: "last (split_str c (a @ c # b)) = b" "2 \<le> length (split_str c (a @ c # b))"
    by simp_all
  show ?case
  proof (cases "x = c")
    case True
    with ih show ?thesis by (simp add: split_str_nonempty)
  next
    case False
    obtain w ws where ws: "split_str c (a @ c # b) = w # ws"
      using split_str_nonempty [of c "a @ c # b"] by (cases "split_str c (a @ c # b)") auto
    with ih have "ws \<noteq> []" by auto
    with ws ih False show ?thesis by simp
  qed
qed

lemma last_split_str: "last (split_str c s) = rev (takeWhile (\<lambda>x. x \<noteq> c) (rev s))"
proof (cases "c \<in> set s")
  case False
  then have tw: "takeWhile (\<lambda>x. x \<noteq> c) (rev s) = rev s"
    by (intro takeWhile_eq_all_conv [THEN iffD2]) auto
  from False show ?thesis by (simp add: split_str_no_sep tw)
next
  case True
  then obtain a b where s: "s = a @ c # b" "c \<notin> set b"
    by (meson split_list_last)
  have "takeWhile (\<lambda>x. x \<noteq> c) (rev b) = rev b"
    using s(2) by (intro takeWhile_eq_all_conv [THEN iffD2]) auto
  then have tw: "takeWhile (\<lambda>x. x \<noteq> c) (rev b @ c # rev a) = rev b"
    by (simp add: takeWhile_tail)
  from s split_str_after_last_sep [of c b a] show ?thesis by (simp add: tw)
qed

lemma getFTPConfig_baseUrl:
  "getFTPConfig pe = Some config \<Longrightarrow>
   \<exists>B. NAMECHEAP_FTP_BASE_URL pe = Some B \<and> B \<noteq> [] \<and> baseUrl config = strip_trailing_slash B"
  by (cases "NAMECHEAP_FTP_BASE_URL pe")
    (auto simp: getFTPConfig_def falsy_def or_default_def split: if_splits)

lemma upload_success_result:
  assumes "u_success (fst (uploadFileToFTP pe fe file folder))"
  shows "\<exists>config. getFTPConfig pe = Some config
     \<and> fst (uploadFileToFTP pe fe file folder)
        = \<lparr>u_success = True,
           u_url = Some (baseUrl config @ ''/'' @ folder @ ''/'' @ make_filename fe file),
           u_error = None, u_filename = Some (make_filename fe file)\<rparr>"
proof (cases "getFTPConfig pe")
  case None
  with assms show ?thesis
    by (simp add: uploadFileToFTP_def upload_failed_def)
next
  case (Some config)
  with assms show ?thesis
    by (auto simp: uploadFileToFTP_def uploadFileToFTP_try_def connectFTP_def upload_failed_def
        Let_def split: option.splits)
qed

text \<open>
  C6, as stated, fails for a file named README when \<open>Math.random()\<close> gives 0.5: the random
  part of the file name is the one character "i", not six characters, and the extension
  is "README", not "file".
\<close>

theorem upload_filename_counterexample:
  "u_success (fst (uploadFileToFTP sample_process_env ftp_random_half
       \<lparr>name = ''README'', content = ''x''\<rparr> ''products''))
   \<and> u_filename (fst (uploadFileToFTP sample_process_env ftp_random_half
       \<lparr>name = ''README'', content = ''x''\<rparr> ''products'')) = Some ''1700000000000-i.README''
   \<and> u_url (fst (uploadFileToFTP sample_process_env ftp_random_half
       \<lparr>name = ''README'', content = ''x''\<rparr> ''products''))
       = Some ''https://cdn.example.com/products/1700000000000-i.README''
   \<and> randomString ftp_random_half = ''i''
   \<and> length (randomString ftp_random_half) \<noteq> 6
   \<and> fileExtension ''README'' = ''README''"
proof -
  have d: "dec 1700000000000 = ''1700000000000''"
    by (simp add: dec.simps digit_def)
  have cfg: "getFTPConfig sample_process_env
      = Some \<lparr>host = ''ftp.example.com'', port = Some 21, user = ''shop'',
              password = ''secret'', baseUrl = ''https://cdn.example.com''\<rparr>"
    by (simp add: getFTPConfig_def sample_process_env_def falsy_def or_default_def
        strip_trailing_slash_def parseInt_def is_space_def is_digit_def digits_value_def)
  have ext: "fileExtension ''README'' = ''README''"
    by (simp add: fileExtension_def)
  have rnd: "randomString ftp_random_half = ''i''"
    by (simp add: randomString_def ftp_random_half_def ftp_ok_def)
  have fn: "make_filename ftp_random_half \<lparr>name = ''README'', content = ''x''\<rparr>
      = ''1700000000000-i.README''"
    by (simp add: make_filename_def rnd ext) (simp add: ftp_random_half_def ftp_ok_def d)
  have res: "fst (uploadFileToFTP sample_process_env ftp_random_half
       \<lparr>name = ''README'', content = ''x''\<rparr> ''products'')
     = \<lparr>u_success = True,
        u_url = Some ''https://cdn.example.com/products/1700000000000-i.README'',
        u_error = None, u_filename = Some ''1700000000000-i.README''\<rparr>"
    by (simp add: uploadFileToFTP_def uploadFileToFTP_try_def cfg connectFTP_def fn Let_def)
      (simp add: ftp_random_half_def ftp_ok_def)
  show ?thesis
    by (simp add: res rnd ext)
qed

text \<open>
  C6, amended: for every successful call to uploadFileToFTP(file, folder) the returned url
  is the configured base URL with one slash at its end removed, if there is one,
  followed by "/" + folder + "/" + filename.  The filename is the timestamp in decimal, a
  hyphen, the characters 2 to 7 of \<open>Math.random()\<close> written in base 36 (at most six
  characters, and six when that string has at least eight), a dot, and the extension.
  The extension is what follows the last dot of file.name, the whole name when it has no
  dot; when that is empty it is "file".
\<close>

theorem upload_url_convention:
  assumes ok: "u_success (fst (uploadFileToFTP pe fe file folder))"
  shows "\<exists>B. NAMECHEAP_FTP_BASE_URL pe = Some B
     \<and> u_url (fst (uploadFileToFTP pe fe file folder))
          = Some (strip_trailing_slash B @ ''/'' @ folder @ ''/'' @ make_filename fe file)
     \<and> u_filename (fst (uploadFileToFTP pe fe file folder)) = Some (make_filename fe file)
     \<and> make_filename fe file
          = dec (date_now fe) @ ''-'' @ take 6 (drop 2 (random36 fe)) @ ''.''
            @ (if rev (takeWhile (\<lambda>c. c \<noteq> CHR ''.'') (rev (name file))) = [] then ''file''
               else rev (takeWhile (\<lambda>c. c \<noteq> CHR ''.'') (rev (name file))))
     \<and> length (take 6 (drop 2 (random36 fe))) \<le> 6
     \<and> (8 \<le> length (random36 fe) \<longrightarrow> length (take 6 (drop 2 (random36 fe))) = 6)"
proof -
  from upload_success_result [OF ok] obtain config where
    cfg: "getFTPConfig pe = Some config"
    and res: "fst (uploadFileToFTP pe fe file folder)
        = \<lparr>u_success = True,
           u_url = Some (baseUrl config @ ''/'' @ folder @ ''/'' @ make_filename fe file),
           u_error = None, u_filename = Some (make_filename fe file)\<rparr>"
    by blast
  from getFTPConfig_baseUrl [OF cfg] obtain B where
    B: "NAMECHEAP_FTP_BASE_URL pe = Some B" "baseUrl config = strip_trailing_slash B"
    by blast
  have fn: "make_filename fe file
      = dec (date_now fe) @ ''-'' @ take 6 (drop 2 (random36 fe)) @ ''.''
        @ (if rev (takeWhile (\<lambda>c. c \<noteq> CHR ''.'') (rev (name file))) = [] then ''file''
           else rev (takeWhile (\<lambda>c. c \<noteq> CHR ''.'') (rev (name file))))"
    by (simp add: make_filename_def randomString_def fileExtension_def last_split_str Let_def)
  have len: "length (take 6 (drop 2 (random36 fe))) \<le> 6"
    "8 \<le> length (random36 fe) \<longrightarrow> length (take 6 (drop 2 (random36 fe))) = 6"
    by simp_all
  show ?thesis
    using B fn len by (intro exI [of _ B]) (simp only: res, simp)
qed

theorem upload_url_convention_witness:
  "u_url (fst (uploadFileToFTP sample_process_env ftp_ok
       \<lparr>name = ''photo.final.png'', content = ''x''\<rparr> ''products''))
     = Some (''https://cdn.example.com/products/''
             @ make_filename ftp_ok \<lparr>name = ''photo.final.png'', content = ''x''\<rparr>)
   \<and> make_filename ftp_ok \<lparr>name = ''photo.final.png'', content = ''x''\<rparr>
     = ''1700000000000-4fzyo8.png''"
proof -
  have cfg: "getFTPConfig sample_process_env
      = Some \<lparr>host = ''ftp.example.com'', port = Some 21, user = ''shop'',
              password = ''secret'', baseUrl = ''https://cdn.example.com''\<rparr>"
    by (simp add: getFTPConfig_def sample_process_env_def falsy_def or_default_def
        strip_trailing_slash_def parseInt_def is_space_def is_digit_def digits_value_def)
  have ok: "u_success (fst (uploadFileToFTP sample_process_env ftp_ok
       \<lparr>name = ''photo.final.png'', content = ''x''\<rparr> ''products''))"
    by (simp add: uploadFileToFTP_def uploadFileToFTP_try_def cfg connectFTP_def Let_def)
      (simp add: ftp_ok_def)
  have B: "NAMECHEAP_FTP_BASE_URL sample_process_env = Some ''https://cdn.example.com/''"
    "strip_trailing_slash ''https://cdn.example.com/'' = ''https://cdn.example.com''"
    by (simp_all add: sample_process_env_def strip_trailing_slash_def)
  have d: "dec 1700000000000 = ''1700000000000''"
    by (simp add: dec.simps digit_def)
  have vals: "date_now ftp_ok = 1700000000000" "take 6 (drop 2 (random36 ftp_ok)) = ''4fzyo8''"
    "rev (takeWhile (\<lambda>c. c \<noteq> CHR ''.'')
        (rev (name \<lparr>name = ''photo.final.png'', content = ''x''\<rparr>))) = ''png''"
    by (simp_all add: ftp_ok_def)
  from upload_url_convention [OF ok] B vals d show ?thesis
    by auto
qed

section \<open>Failures of external calls\<close>

lemma promoteUser_success_iff:
  "success (fst (promoteUser e d t r)) \<longleftrightarrow>
     createClient_throws e = None
     \<and> (\<exists>uid. auth_user e = Some uid
           \<and> select_profile_role e SelectCallerProfile d uid = Some ''chief_admin'')
     \<and> fault e UpdateProfileRole = None
     \<and> (r = customer
        \<or> (case fst (insert_admin_staff e (snd (update_profile_role e d t (role_name r)))
                     (new_staff_row e t r)) of
             None \<Rightarrow> True
           | Some err \<Rightarrow> code err = ''23505''))"
proof (cases "createClient_throws e")
  case (Some x)
  then show ?thesis
    by (simp add: promoteUser_def promoteUser_try_def createClient_def failed_def)
next
  case None
  note client = None
  show ?thesis
  proof (cases "auth_user e")
    case None
    with client show ?thesis
      by (simp add: promoteUser_def promoteUser_try_def createClient_def failed_def)
  next
    case (Some uid)
    note user = Some
    show ?thesis
    proof (cases "select_profile_role e SelectCallerProfile d uid = Some ''chief_admin''")
      case False
      with client user show ?thesis
        by (simp add: promoteUser_def promoteUser_try_def createClient_def failed_def)
    next
      case True
      note chief = True
      show ?thesis
      proof (cases "fault e UpdateProfileRole")
        case (Some err)
        with client user chief show ?thesis
          by (simp add: promoteUser_def promoteUser_try_def createClient_def failed_def
              update_profile_role_def)
      next
        case None
        obtain ie d2 where ins: "insert_admin_staff e
            (snd (update_profile_role e d t (role_name r))) (new_staff_row e t r) = (ie, d2)"
          by (cases "insert_admin_staff e (snd (update_profile_role e d t (role_name r)))
              (new_staff_row e t r)")
        with client user chief None show ?thesis
          by (cases ie)
            (simp_all add: promoteUser_def promoteUser_try_def createClient_def failed_def
              succeeded_def update_profile_role_def create_staff_record_def)
      qed
    qed
  qed
qed

lemma promoteUser_error: "\<not> success (fst (promoteUser e d t r)) \<Longrightarrow> error (fst (promoteUser e d t r)) \<noteq> None"
  by (auto simp: promoteUser_def promoteUser_try_def failed_def succeeded_def
      split: prod.splits sum.splits option.splits if_splits)

lemma demoteUser_success_iff:
  "success (fst (demoteUser e d t)) \<longleftrightarrow>
     createClient_throws e = None
     \<and> (\<exists>uid. auth_user e = Some uid
           \<and> select_profile_role e SelectCallerProfile d uid = Some ''chief_admin'')
     \<and> fault e UpdateProfileRole = None"
  by (auto simp: demoteUser_def demoteUser_try_def createClient_def failed_def succeeded_def
      update_profile_role_def Let_def split: option.splits)

lemma demoteUser_error: "\<not> success (fst (demoteUser e d t)) \<Longrightarrow> error (fst (demoteUser e d t)) \<noteq> None"
  by (auto simp: demoteUser_def demoteUser_try_def failed_def succeeded_def Let_def
      split: prod.splits sum.splits option.splits if_splits)

lemma getSalesStats_success_iff:
  "sales_success (getSalesStats L e d p) \<longleftrightarrow>
     createStaticClient_throws e = None \<and> fault e SelectOrders = None"
  by (auto simp: getSalesStats_def getSalesStats_try_def createStaticClient_def
      select_completed_orders_def Let_def split: option.splits)

lemma getSalesStats_error:
  "\<not> sales_success (getSalesStats L e d p) \<Longrightarrow>
   getSalesStats L e d p =
     \<lparr>sales_success = False, sales_error = Some ''Failed to fetch sales statistics'',
      sales_data = None\<rparr>"
  by (auto simp: getSalesStats_def getSalesStats_try_def Let_def split: sum.splits)

lemma upload_success_iff:
  "u_success (fst (uploadFileToFTP pe fe file folder)) \<longleftrightarrow>
     getFTPConfig pe \<noteq> None \<and> connect_error fe = None \<and> arrayBuffer_error fe = None
     \<and> put_error fe (''/'' @ folder @ ''/'' @ make_filename fe file) = None"
  by (auto simp: uploadFileToFTP_def uploadFileToFTP_try_def connectFTP_def upload_failed_def
      Let_def split: option.splits)

lemma upload_error:
  "\<not> u_success (fst (uploadFileToFTP pe fe file folder)) \<Longrightarrow>
   u_error (fst (uploadFileToFTP pe fe file folder)) \<noteq> None"
  by (auto simp: uploadFileToFTP_def uploadFileToFTP_try_def connectFTP_def upload_failed_def
      Let_def split: option.splits)

lemma delete_success_iff:
  "d_success (fst (deleteFileFromFTP pe fe filename folder)) \<longleftrightarrow>
     getFTPConfig pe \<noteq> None \<and> connect_error fe = None
     \<and> delete_error fe (''/'' @ folder @ ''/'' @ filename) = None"
  by (auto simp: deleteFileFromFTP_def deleteFileFromFTP_try_def connectFTP_def
      Let_def split: option.splits)

lemma delete_error:
  "\<not> d_success (fst (deleteFileFromFTP pe fe filename folder)) \<Longrightarrow>
   d_error (fst (deleteFileFromFTP pe fe filename folder)) \<noteq> None"
  by (auto simp: deleteFileFromFTP_def deleteFileFromFTP_try_def connectFTP_def
      Let_def split: option.splits)

lemma checkPermission_call_returns:
  "checkPermission_call e d required = Inr (checkPermission e d required)
     \<and> (createClient_throws e = None \<or> \<not> checkPermission e d required)"
  by (auto simp: checkPermission_call_def checkPermission_def checkPermission_try_def
      catch_value_def createClient_def split: sum.splits option.splits)

lemma getAdminPermissions_returns:
  "\<exists>r. getAdminPermissions e d = Inr r
     \<and> (r = None \<longleftrightarrow>
          createClient_throws e \<noteq> None \<or> auth_user e = None
          \<or> (\<exists>uid. auth_user e = Some uid
                \<and> select_profile_role e SelectCallerProfile d uid = None))"
  by (auto simp: getAdminPermissions_def getAdminPermissions_try_def catch_value_def
      createClient_def Let_def split: option.splits)

lemma getAllUsers_returns:
  "\<exists>r. fst (getAllUsers e B) = Inr r
     \<and> (f_success r \<longleftrightarrow>
          createStaticClient_throws e = None \<and> r_error (B q_all_users) = None)
     \<and> (f_success r \<or> r = fetch_failed ''Failed to fetch users'')"
  by (auto simp: getAllUsers_def fetch_try_def try_catch_def catch_value_def
      createStaticClient_def fetch_failed_def split: option.splits)

lemma promoteUser_call_returns:
  "fst (promoteUser_call e d t r) = Inr (fst (promoteUser e d t r))
     \<and> snd (promoteUser_call e d t r) = snd (promoteUser e d t r)
     \<and> (success (fst (promoteUser e d t r)) \<longleftrightarrow>
          createClient_throws e = None
          \<and> (\<exists>uid. auth_user e = Some uid
                \<and> select_profile_role e SelectCallerProfile d uid = Some ''chief_admin'')
          \<and> fault e UpdateProfileRole = None
          \<and> (r = customer
             \<or> (case fst (insert_admin_staff e
                          (snd (update_profile_role e d t (role_name r)))
                          (new_staff_row e t r)) of
                  None \<Rightarrow> True
                | Some err \<Rightarrow> code err = ''23505'')))
     \<and> (success (fst (promoteUser e d t r)) \<or> error (fst (promoteUser e d t r)) \<noteq> None)"
proof -
  have link: "fst (promoteUser_call e d t r) = Inr (fst (promoteUser e d t r))
      \<and> snd (promoteUser_call e d t r) = snd (promoteUser e d t r)"
    by (cases "promoteUser_try e d t r"; cases "fst (promoteUser_try e d t r)")
      (simp_all add: promoteUser_call_def promoteUser_def try_catch_def catch_value_def)
  from link have a: "fst (promoteUser_call e d t r) = Inr (fst (promoteUser e d t r))"
    and b: "snd (promoteUser_call e d t r) = snd (promoteUser e d t r)"
    by simp_all
  note c = promoteUser_success_iff [of e d t r]
  have d: "success (fst (promoteUser e d t r)) \<or> error (fst (promoteUser e d t r)) \<noteq> None"
    using promoteUser_error [of e d t r] by blast
  show ?thesis
    by (rule conjI [OF a conjI [OF b conjI [OF c d]]])
qed

lemma demoteUser_call_returns:
  "fst (demoteUser_call e d t) = Inr (fst (demoteUser e d t))
     \<and> snd (demoteUser_call e d t) = snd (demoteUser e d t)
     \<and> (success (fst (demoteUser e d t)) \<longleftrightarrow>
          createClient_throws e = None
          \<and> (\<exists>uid. auth_user e = Some uid
                \<and> select_profile_role e SelectCallerProfile d uid = Some ''chief_admin'')
          \<and> fault e UpdateProfileRole = None)
     \<and> (success (fst (demoteUser e d t)) \<or> error (fst (demoteUser e d t)) \<noteq> None)"
proof -
  have link: "fst (demoteUser_call e d t) = Inr (fst (demoteUser e d t))
      \<and> snd (demoteUser_call e d t) = snd (demoteUser e d t)"
    by (cases "demoteUser_try e d t"; cases "fst (demoteUser_try e d t)")
      (simp_all add: demoteUser_call_def demoteUser_def try_catch_def catch_value_def)
  from link have a: "fst (demoteUser_call e d t) = Inr (fst (demoteUser e d t))"
    and b: "snd (demoteUser_call e d t) = snd (demoteUser e d t)"
    by simp_all
  note c = demoteUser_success_iff [of e d t]
  have d: "success (fst (demoteUser e d t)) \<or> error (fst (demoteUser e d t)) \<noteq> None"
    using demoteUser_error [of e d t] by blast
  show ?thesis
    by (rule conjI [OF a conjI [OF b conjI [OF c d]]])
qed

lemma deleteUser_returns:
  "\<exists>r. fst (deleteUser e B t) = Inr r
     \<and> (success r \<longleftrightarrow> createClient_throws e = None
          \<and> (\<exists>uid. auth_user e = Some uid \<and> is_chief_admin B uid)
          \<and> r_error (B (q_delete_profile t)) = None)
     \<and> (success r \<or> error r \<noteq> None)"
  by (auto simp: deleteUser_def deleteUser_try_def try_catch_def catch_value_def
      createClient_def failed_def succeeded_def Let_def
      split: option.splits sum.splits)

lemma toggleUserStatus_returns:
  "\<exists>r. fst (toggleUserStatus e B t) = Inr r
     \<and> (success r \<longleftrightarrow> createClient_throws e = None
          \<and> (\<exists>uid. auth_user e = Some uid \<and> is_chief_admin B uid)
          \<and> r_error (B (q_toggle_user B t)) = None)
     \<and> (success r \<or> error r \<noteq> None)"
  by (auto simp: toggleUserStatus_def toggleUserStatus_try_def try_catch_def catch_value_def
      createClient_def failed_def succeeded_def Let_def
      split: option.splits sum.splits)

lemma createProduct_returns:
  "\<exists>r. fst (createProduct e B productData) = Inr r
     \<and> (success r \<longleftrightarrow>
          createClient_throws e = None
          \<and> (\<exists>uid. auth_user e = Some uid
                \<and> r_error (B (q_insert_product B uid productData)) = None
                \<and> r_data (B (q_insert_product B uid productData)) \<noteq> JNull))
     \<and> (success r \<or> error r \<noteq> None)"
  by (auto simp: createProduct_def createProduct_try_def try_catch_def catch_value_def
      createClient_def product_failed_def get_prop_def Let_def
      split: option.splits sum.splits json.splits)

lemma updateProduct_returns:
  "\<exists>r. fst (updateProduct L e B product_id updates) = Inr r
     \<and> (success r \<longleftrightarrow> createClient_throws e = None \<and> auth_user e \<noteq> None
          \<and> r_error (B (q_update_product L e product_id updates)) = None)
     \<and> (success r \<or> error r \<noteq> None)"
  by (auto simp: updateProduct_def updateProduct_try_def try_catch_def catch_value_def
      createClient_def failed_def succeeded_def Let_def
      split: option.splits sum.splits)

lemma deleteProduct_returns:
  "\<exists>r. fst (deleteProduct e B product_id) = Inr r
     \<and> (success r \<longleftrightarrow> createClient_throws e = None \<and> auth_user e \<noteq> None
          \<and> r_error (B (q_delete_product product_id)) = None)
     \<and> (success r \<or> error r \<noteq> None)"
  by (auto simp: deleteProduct_def deleteProduct_try_def try_catch_def catch_value_def
      createClient_def failed_def succeeded_def Let_def
      split: option.splits sum.splits)

lemma toggleProductStatus_returns:
  "\<exists>r. fst (toggleProductStatus e B product_id) = Inr r
     \<and> (success r \<longleftrightarrow> createClient_throws e = None \<and> auth_user e \<noteq> None
          \<and> r_error (B (q_toggle_product B product_id)) = None)
     \<and> (success r \<or> error r \<noteq> None)"
  by (auto simp: toggleProductStatus_def toggleProductStatus_try_def try_catch_def catch_value_def
      createClient_def failed_def succeeded_def Let_def
      split: option.splits sum.splits)

lemma getAllOrders_returns:
  "\<exists>r. fst (getAllOrders e B) = Inr r
     \<and> (f_success r \<longleftrightarrow>
          createStaticClient_throws e = None \<and> r_error (B q_all_orders) = None)
     \<and> (f_success r \<or> r = fetch_failed ''Failed to fetch orders'')"
  by (auto simp: getAllOrders_def fetch_try_def try_catch_def catch_value_def
      createStaticClient_def fetch_failed_def split: option.splits)

lemma updateOrderStatus_returns:
  "\<exists>r. fst (updateOrderStatus L e B orderId order_status) = Inr r
     \<and> (success r \<longleftrightarrow> createClient_throws e = None \<and> auth_user e \<noteq> None
          \<and> r_error (B (q_update_order L e orderId order_status)) = None)
     \<and> (success r \<or> error r \<noteq> None)"
  by (auto simp: updateOrderStatus_def updateOrderStatus_try_def try_catch_def catch_value_def
      createClient_def failed_def succeeded_def Let_def
      split: option.splits sum.splits)

lemma getActivityLogs_returns:
  "\<exists>r. fst (getActivityLogs e B limit) = Inr r
     \<and> (f_success r \<longleftrightarrow>
          createStaticClient_throws e = None \<and> r_error (B (q_activity_logs limit)) = None)
     \<and> (f_success r \<or> r = fetch_failed ''Failed to fetch activity logs'')"
  by (auto simp: getActivityLogs_def fetch_try_def try_catch_def catch_value_def
      createStaticClient_def fetch_failed_def split: option.splits)

lemma getSalesStats_call_returns:
  "getSalesStats_call L e d p = Inr (getSalesStats L e d p)
     \<and> (sales_success (getSalesStats L e d p) \<longleftrightarrow>
          createStaticClient_throws e = None \<and> fault e SelectOrders = None)
     \<and> (sales_success (getSalesStats L e d p)
        \<or> getSalesStats L e d p =
            \<lparr>sales_success = False,
             sales_error = Some ''Failed to fetch sales statistics'', sales_data = None\<rparr>)"
proof -
  have a: "getSalesStats_call L e d p = Inr (getSalesStats L e d p)"
    by (cases "getSalesStats_try L e d p")
      (simp_all add: getSalesStats_call_def getSalesStats_def catch_value_def)
  note c = getSalesStats_success_iff [of L e d p]
  have d: "sales_success (getSalesStats L e d p)
      \<or> getSalesStats L e d p =
          \<lparr>sales_success = False,
           sales_error = Some ''Failed to fetch sales statistics'', sales_data = None\<rparr>"
    using getSalesStats_error [of L e d p] by blast
  show ?thesis
    by (rule conjI [OF a conjI [OF c d]])
qed

lemma getSystemIssues_returns:
  "\<exists>r. getSystemIssues e = Inr r
     \<and> (f_success r \<longleftrightarrow> createStaticClient_throws e = None)
     \<and> (f_success r \<or> r = fetch_failed ''Failed to fetch issues'')"
  by (auto simp: getSystemIssues_def catch_value_def createStaticClient_def fetch_failed_def
      split: option.splits)

lemma getAllAgents_returns:
  "\<exists>r. fst (getAllAgents e B) = Inr r
     \<and> (f_success r \<longleftrightarrow>
          createStaticClient_throws e = None \<and> r_error (B q_all_agents) = None)
     \<and> (f_success r \<or> r = fetch_failed ''Failed to fetch agents'')"
  by (auto simp: getAllAgents_def fetch_try_def try_catch_def catch_value_def
      createStaticClient_def fetch_failed_def split: option.splits)

lemma uploadFileToFTP_call_returns:
  "fst (uploadFileToFTP_call pe fe file folder) = Inr (fst (uploadFileToFTP pe fe file folder))
     \<and> snd (snd (uploadFileToFTP_call pe fe file folder))
         = snd (uploadFileToFTP pe fe file folder)
     \<and> (u_success (fst (uploadFileToFTP pe fe file folder)) \<longleftrightarrow>
          getFTPConfig pe \<noteq> None \<and> connect_error fe = None
          \<and> arrayBuffer_error fe = None
          \<and> put_error fe (''/'' @ folder @ ''/'' @ make_filename fe file) = None)
     \<and> (u_success (fst (uploadFileToFTP pe fe file folder))
        \<or> u_error (fst (uploadFileToFTP pe fe file folder)) \<noteq> None)"
proof -
  have "fst (uploadFileToFTP_call pe fe file folder)
        = Inr (fst (uploadFileToFTP pe fe file folder))
      \<and> snd (snd (uploadFileToFTP_call pe fe file folder))
        = snd (uploadFileToFTP pe fe file folder)"
  proof (cases "getFTPConfig pe")
    case None
    then show ?thesis
      by (simp add: uploadFileToFTP_call_def uploadFileToFTP_def)
  next
    case (Some config)
    obtain outcome client tr where
      "uploadFileToFTP_try config fe file folder = (outcome, client, tr)"
      by (cases "uploadFileToFTP_try config fe file folder") auto
    with Some show ?thesis
      by (cases outcome)
        (simp_all add: uploadFileToFTP_call_def uploadFileToFTP_def try_finally_def
          try_catch_def catch_value_def client_end_def)
  qed
  with upload_success_iff [of pe fe "file" folder] upload_error [of pe fe "file" folder]
  show ?thesis
    by blast
qed

lemma uploadMultipleFilesToFTP_call_returns:
  "\<exists>results. uploadMultipleFilesToFTP_call pe fe files folder = Inr results
     \<and> results = map fst (uploadMultipleFilesToFTP pe fe files folder)
     \<and> length results = length files
     \<and> (\<forall>res \<in> set results. u_success res \<or> u_error res \<noteq> None)"
proof (induction files)
  case Nil
  then show ?case by simp
next
  case (Cons f files)
  have "fst (uploadFileToFTP_call pe fe f folder) = Inr (fst (uploadFileToFTP pe fe f folder))"
    using uploadFileToFTP_call_returns [of pe fe f folder] by blast
  moreover have "u_success (fst (uploadFileToFTP pe fe f folder))
      \<or> u_error (fst (uploadFileToFTP pe fe f folder)) \<noteq> None"
    using upload_error [of pe fe f folder] by blast
  ultimately show ?case
    using Cons.IH by auto
qed

lemma deleteFileFromFTP_call_returns:
  "fst (deleteFileFromFTP_call pe fe filename folder)
       = Inr (fst (deleteFileFromFTP pe fe filename folder))
     \<and> snd (snd (deleteFileFromFTP_call pe fe filename folder))
         = snd (deleteFileFromFTP pe fe filename folder)
     \<and> (d_success (fst (deleteFileFromFTP pe fe filename folder)) \<longleftrightarrow>
          getFTPConfig pe \<noteq> None \<and> connect_error fe = None
          \<and> delete_error fe (''/'' @ folder @ ''/'' @ filename) = None)
     \<and> (d_success (fst (deleteFileFromFTP pe fe filename folder))
        \<or> d_error (fst (deleteFileFromFTP pe fe filename folder)) \<noteq> None)"
proof -
  have "fst (deleteFileFromFTP_call pe fe filename folder)
        = Inr (fst (deleteFileFromFTP pe fe filename folder))
      \<and> snd (snd (deleteFileFromFTP_call pe fe filename folder))
        = snd (deleteFileFromFTP pe fe filename folder)"
  proof (cases "getFTPConfig pe")
    case None
    then show ?thesis
      by (simp add: deleteFileFromFTP_call_def deleteFileFromFTP_def)
  next
    case (Some config)
    obtain outcome client tr where
      "deleteFileFromFTP_try fe filename folder = (outcome, client, tr)"
      by (cases "deleteFileFromFTP_try fe filename folder") auto
    with Some show ?thesis
      by (cases outcome)
        (simp_all add: deleteFileFromFTP_call_def deleteFileFromFTP_def try_finally_def
          try_catch_def catch_value_def client_end_def)
  qed
  with delete_success_iff [of pe fe filename folder] delete_error [of pe fe filename folder]
  show ?thesis
    by blast
qed

lemma extractFilenameFromUrl_returns:
  "\<exists>s. extractFilenameFromUrl url_pathname url = Inr s"
  by (auto simp: extractFilenameFromUrl_def catch_value_def split: sum.splits)

text \<open>
  C7, as stated, fails in two ways.  Some failures of external calls end in a success:
  promoteUser returns a success when the insert into \<open>admin_staff\<close> fails with the
  duplicate key 23505, and when the insert of the audit-log row fails (no row is
  written); deleteUser returns a success when the delete on \<open>admin_staff\<close> fails;
  uploadFileToFTP returns a success when the directory can neither be entered nor created
  but the upload command itself succeeds.  And the failure value is not always
  \<open>{success: false, error}\<close>: when the client constructor throws, getAdminPermissions
  returns \<open>null\<close> and checkPermission returns \<open>false\<close>.
\<close>

theorem unchecked_failures_counterexample:
  "fst (insert_admin_staff (env_of (Some ''u1''))
         (snd (update_profile_role (env_of (Some ''u1'')) db0 ''u2'' (role_name agent)))
         (new_staff_row (env_of (Some ''u1'')) ''u2'' agent)) = Some unique_violation
   \<and> success (fst (promoteUser (env_of (Some ''u1'')) db0 ''u2'' agent))
   \<and> fault (env_failing (Some ''u1'') InsertActivityLog fk_violation) InsertActivityLog
       = Some fk_violation
   \<and> success (fst (promoteUser (env_failing (Some ''u1'') InsertActivityLog fk_violation)
        db0 ''u3'' agent))
   \<and> admin_activity_logs (snd (promoteUser
        (env_failing (Some ''u1'') InsertActivityLog fk_violation) db0 ''u3'' agent)) = []
   \<and> r_error (oracle_failing (q_delete_staff ''u2'') fk_violation (q_delete_staff ''u2''))
       = Some fk_violation
   \<and> fst (deleteUser (env_of (Some ''u1'')) (oracle_failing (q_delete_staff ''u2'') fk_violation)
        ''u2'') = Inr (succeeded ''User deleted successfully'')
   \<and> cwd_error ftp_no_directory ''products'' = Some (JsError ''No such directory'')
   \<and> cwd_error ftp_no_directory ''/products'' = Some (JsError ''No such directory'')
   \<and> mkdir_error ftp_no_directory ''/products'' = Some (JsError ''Permission denied'')
   \<and> u_success (fst (uploadFileToFTP sample_process_env ftp_no_directory
        \<lparr>name = ''a.png'', content = ''x''\<rparr> ''products''))
   \<and> createClient_throws env_client_throws = Some (JsError ''no request scope'')
   \<and> getAdminPermissions env_client_throws db0 = Inr None
   \<and> checkPermission_call env_client_throws db0 customer = Inr False"
proof -
  have cfg: "getFTPConfig sample_process_env \<noteq> None"
    by (simp add: getFTPConfig_def sample_process_env_def falsy_def)
  have up: "u_success (fst (uploadFileToFTP sample_process_env ftp_no_directory
      \<lparr>name = ''a.png'', content = ''x''\<rparr> ''products''))"
    using cfg
    by (auto simp: uploadFileToFTP_def uploadFileToFTP_try_def connectFTP_def
        ftp_no_directory_def ftp_ok_def Let_def)
  have dup: "fst (insert_admin_staff (env_of (Some ''u1''))
         (snd (update_profile_role (env_of (Some ''u1'')) db0 ''u2'' (role_name agent)))
         (new_staff_row (env_of (Some ''u1'')) ''u2'' agent)) = Some unique_violation"
    "success (fst (promoteUser (env_of (Some ''u1'')) db0 ''u2'' agent))"
    by (simp_all add: promoteUser_def promoteUser_try_def createClient_def env_of_def
        no_fault_def select_profile_role_def update_profile_role_def create_staff_record_def
        insert_admin_staff_def insert_activity_log_def new_staff_row_def succeeded_def
        unique_violation_def db0_def staff_u2_def)
  have pr: "success (fst (promoteUser (env_failing (Some ''u1'') InsertActivityLog fk_violation)
        db0 ''u3'' agent))"
    "admin_activity_logs (snd (promoteUser
        (env_failing (Some ''u1'') InsertActivityLog fk_violation) db0 ''u3'' agent)) = []"
    by (simp_all add: promoteUser_def promoteUser_try_def createClient_def env_failing_def
        select_profile_role_def update_profile_role_def create_staff_record_def
        insert_admin_staff_def insert_activity_log_def new_staff_row_def succeeded_def
        db0_def staff_u2_def)
  have chief: "is_chief_admin (oracle_failing (q_delete_staff ''u2'') fk_violation) ''u1''"
    by (simp add: is_chief_admin_def oracle_failing_def oracle_chief_def q_caller_role_def
        q_delete_staff_def opt_prop_def)
  have del: "r_error (oracle_failing (q_delete_staff ''u2'') fk_violation
        (q_delete_profile ''u2'')) = None"
    "r_error (oracle_failing (q_delete_staff ''u2'') fk_violation (q_delete_staff ''u2''))
       = Some fk_violation"
    by (simp_all add: oracle_failing_def oracle_chief_def q_caller_role_def q_delete_staff_def
        q_delete_profile_def)
  have du: "fst (deleteUser (env_of (Some ''u1''))
        (oracle_failing (q_delete_staff ''u2'') fk_violation) ''u2'')
      = Inr (succeeded ''User deleted successfully'')"
    using chief del(1)
    by (simp add: deleteUser_def deleteUser_try_def try_catch_def catch_value_def
        createClient_def env_of_def)
  have per: "getAdminPermissions env_client_throws db0 = Inr None"
    "checkPermission_call env_client_throws db0 customer = Inr False"
    "createClient_throws env_client_throws = Some (JsError ''no request scope'')"
    by (simp_all add: getAdminPermissions_def getAdminPermissions_try_def
        checkPermission_call_def checkPermission_try_def catch_value_def createClient_def
        env_client_throws_def)
  show ?thesis
    using up dup pr du del(2) per
    by (simp add: env_failing_def ftp_no_directory_def ftp_ok_def)
qed

text \<open>
  C7, amended: no exported admin action and no exported function of the FTP service lets
  an exception reach its caller, whatever the input and whichever external call fails:
  every one of them returns a value.  A failure of an external call whose result the
  function looks at (a throwing client constructor, the query of a reading function, the
  update, insert or delete an action is about, an \<open>admin_staff\<close> insert error other than
  23505, a missing FTP configuration, the FTP connect, reading the file, the upload or
  the delete command) is converted into the failure value of the function:
  \<open>{success: false, error: <string>}\<close>, with \<open>data: null\<close> for the reading functions;
  \<open>false\<close> for checkPermission and \<open>null\<close> for getAdminPermissions.  The failures a
  function tolerates or does not look at (the duplicate key 23505, the audit-log insert,
  the delete on \<open>admin_staff\<close>, the look-up of a single row, \<open>cwd\<close> and \<open>mkdir\<close>) are
  no part of the condition of success.  extractFilenameFromUrl, which calls nothing
  outside, returns a string.
\<close>

theorem failures_become_results:
  "(checkPermission_call e d required = Inr (checkPermission e d required)
     \<and> (createClient_throws e = None \<or> \<not> checkPermission e d required))
   \<and> (\<exists>r. getAdminPermissions e d = Inr r
     \<and> (r = None \<longleftrightarrow>
          createClient_throws e \<noteq> None \<or> auth_user e = None
          \<or> (\<exists>uid. auth_user e = Some uid
                \<and> select_profile_role e SelectCallerProfile d uid = None)))
   \<and> (\<exists>r. fst (getAllUsers e B) = Inr r
     \<and> (f_success r \<longleftrightarrow>
          createStaticClient_throws e = None \<and> r_error (B q_all_users) = None)
     \<and> (f_success r \<or> r = fetch_failed ''Failed to fetch users''))
   \<and> (fst (promoteUser_call e d t r) = Inr (fst (promoteUser e d t r))
     \<and> snd (promoteUser_call e d t r) = snd (promoteUser e d t r)
     \<and> (success (fst (promoteUser e d t r)) \<longleftrightarrow>
          createClient_throws e = None
          \<and> (\<exists>uid. auth_user e = Some uid
                \<and> select_profile_role e SelectCallerProfile d uid = Some ''chief_admin'')
          \<and> fault e UpdateProfileRole = None
          \<and> (r = customer
             \<or> (case fst (insert_admin_staff e
                          (snd (update_profile_role e d t (role_name r)))
                          (new_staff_row e t r)) of
                  None \<Rightarrow> True
                | Some err \<Rightarrow> code err = ''23505'')))
     \<and> (success (fst (promoteUser e d t r)) \<or> error (fst (promoteUser e d t r)) \<noteq> None))
   \<and> (fst (demoteUser_call e d t) = Inr (fst (demoteUser e d t))
     \<and> snd (demoteUser_call e d t) = snd (demoteUser e d t)
     \<and> (success (fst (demoteUser e d t)) \<longleftrightarrow>
          createClient_throws e = None
          \<and> (\<exists>uid. auth_user e = Some uid
                \<and> select_profile_role e SelectCallerProfile d uid = Some ''chief_admin'')
          \<and> fault e UpdateProfileRole = None)
     \<and> (success (fst (demoteUser e d t)) \<or> error (fst (demoteUser e d t)) \<noteq> None))
   \<and> (\<exists>r. fst (deleteUser e B t) = Inr r
     \<and> (success r \<longleftrightarrow> createClient_throws e = None
          \<and> (\<exists>uid. auth_user e = Some uid \<and> is_chief_admin B uid)
          \<and> r_error (B (q_delete_profile t)) = None)
     \<and> (success r \<or> error r \<noteq> None))
   \<and> (\<exists>r. fst (toggleUserStatus e B t) = Inr r
     \<and> (success r \<longleftrightarrow> createClient_throws e = None
          \<and> (\<exists>uid. auth_user e = Some uid \<and> is_chief_admin B uid)
          \<and> r_error (B (q_toggle_user B t)) = None)
     \<and> (success r \<or> error r \<noteq> None))
   \<and> (\<exists>r. fst (createProduct e B productData) = Inr r
     \<and> (success r \<longleftrightarrow>
          createClient_throws e = None
          \<and> (\<exists>uid. auth_user e = Some uid
                \<and> r_error (B (q_insert_product B uid productData)) = None
                \<and> r_data (B (q_insert_product B uid productData)) \<noteq> JNull))
     \<and> (success r \<or> error r \<noteq> None))
   \<and> (\<exists>r. fst (updateProduct L e B product_id updates) = Inr r
     \<and> (success r \<longleftrightarrow> createClient_throws e = None \<and> auth_user e \<noteq> None
          \<and> r_error (B (q_update_product L e product_id updates)) = None)
     \<and> (success r \<or> error r \<noteq> None))
   \<and> (\<exists>r. fst (deleteProduct e B product_id) = Inr r
     \<and> (success r \<longleftrightarrow> createClient_throws e = None \<and> auth_user e \<noteq> None
          \<and> r_error (B (q_delete_product product_id)) = None)
     \<and> (success r \<or> error r \<noteq> None))
   \<and> (\<exists>r. fst (toggleProductStatus e B product_id) = Inr r
     \<and> (success r \<longleftrightarrow> createClient_throws e = None \<and> auth_user e \<noteq> None
          \<and> r_error (B (q_toggle_product B product_id)) = None)
     \<and> (success r \<or> error r \<noteq> None))
   \<and> (\<exists>r. fst (getAllOrders e B) = Inr r
     \<and> (f_success r \<longleftrightarrow>
          createStaticClient_throws e = None \<and> r_error (B q_all_orders) = None)
     \<and> (f_success r \<or> r = fetch_failed ''Failed to fetch orders''))
   \<and> (\<exists>r. fst (updateOrderStatus L e B orderId order_status) = Inr r
     \<and> (success r \<longleftrightarrow> createClient_throws e = None \<and> auth_user e \<noteq> None
          \<and> r_error (B (q_update_order L e orderId order_status)) = None)
     \<and> (success r \<or> error r \<noteq> None))
   \<and> (\<exists>r. fst (getActivityLogs e B limit) = Inr r
     \<and> (f_success r \<longleftrightarrow>
          createStaticClient_throws e = None \<and> r_error (B (q_activity_logs limit)) = None)
     \<and> (f_success r \<or> r = fetch_failed ''Failed to fetch activity logs''))
   \<and> (getSalesStats_call L e d p = Inr (getSalesStats L e d p)
     \<and> (sales_success (getSalesStats L e d p) \<longleftrightarrow>
          createStaticClient_throws e = None \<and> fault e SelectOrders = None)
     \<and> (sales_success (getSalesStats L e d p)
        \<or> getSalesStats L e d p =
            \<lparr>sales_success = False,
             sales_error = Some ''Failed to fetch sales statistics'', sales_data = None\<rparr>))
   \<and> (\<exists>r. getSystemIssues e = Inr r
     \<and> (f_success r \<longleftrightarrow> createStaticClient_throws e = None)
     \<and> (f_success r \<or> r = fetch_failed ''Failed to fetch issues''))
   \<and> (\<exists>r. fst (getAllAgents e B) = Inr r
     \<and> (f_success r \<longleftrightarrow>
          createStaticClient_throws e = None \<and> r_error (B q_all_agents) = None)
     \<and> (f_success r \<or> r = fetch_failed ''Failed to fetch agents''))
   \<and> (fst (uploadFileToFTP_call pe fe file folder) = Inr (fst (uploadFileToFTP pe fe file folder))
     \<and> snd (snd (uploadFileToFTP_call pe fe file folder))
         = snd (uploadFileToFTP pe fe file folder)
     \<and> (u_success (fst (uploadFileToFTP pe fe file folder)) \<longleftrightarrow>
          getFTPConfig pe \<noteq> None \<and> connect_error fe = None
          \<and> arrayBuffer_error fe = None
          \<and> put_error fe (''/'' @ folder @ ''/'' @ make_filename fe file) = None)
     \<and> (u_success (fst (uploadFileToFTP pe fe file folder))
        \<or> u_error (fst (uploadFileToFTP pe fe file folder)) \<noteq> None))
   \<and> (\<exists>results. uploadMultipleFilesToFTP_call pe fe files folder = Inr results
     \<and> results = map fst (uploadMultipleFilesToFTP pe fe files folder)
     \<and> length results = length files
     \<and> (\<forall>res \<in> set results. u_success res \<or> u_error res \<noteq> None))
   \<and> (fst (deleteFileFromFTP_call pe fe filename folder)
       = Inr (fst (deleteFileFromFTP pe fe filename folder))
     \<and> snd (snd (deleteFileFromFTP_call pe fe filename folder))
         = snd (deleteFileFromFTP pe fe filename folder)
     \<and> (d_success (fst (deleteFileFromFTP pe fe filename folder)) \<longleftrightarrow>
          getFTPConfig pe \<noteq> None \<and> connect_error fe = None
          \<and> delete_error fe (''/'' @ folder @ ''/'' @ filename) = None)
     \<and> (d_success (fst (deleteFileFromFTP pe fe filename folder))
        \<or> d_error (fst (deleteFileFromFTP pe fe filename folder)) \<noteq> None))
   \<and> (\<exists>s. extractFilenameFromUrl url_pathname url = Inr s)"
  by (rule conjI [OF checkPermission_call_returns conjI [OF getAdminPermissions_returns conjI [OF
      getAllUsers_returns conjI [OF promoteUser_call_returns conjI [OF demoteUser_call_returns
      conjI [OF deleteUser_returns conjI [OF toggleUserStatus_returns conjI [OF
      createProduct_returns conjI [OF updateProduct_returns conjI [OF deleteProduct_returns
      conjI [OF toggleProductStatus_returns conjI [OF getAllOrders_returns conjI [OF
      updateOrderStatus_returns conjI [OF getActivityLogs_returns conjI [OF
      getSalesStats_call_returns conjI [OF getSystemIssues_returns conjI [OF
      getAllAgents_returns conjI [OF uploadFileToFTP_call_returns conjI [OF
      uploadMultipleFilesToFTP_call_returns conjI [OF deleteFileFromFTP_call_returns
      extractFilenameFromUrl_returns]]]]]]]]]]]]]]]]]]]])

theorem failures_become_results_witness:
  "\<not> success (fst (promoteUser (env_failing (Some ''u1'') UpdateProfileRole fk_violation)
        db0 ''u3'' agent))
   \<and> error (fst (promoteUser (env_failing (Some ''u1'') UpdateProfileRole fk_violation)
        db0 ''u3'' agent)) \<noteq> None
   \<and> (\<exists>r. fst (deleteUser (env_of (Some ''u1''))
              (oracle_failing (q_delete_profile ''u2'') fk_violation) ''u2'') = Inr r
          \<and> \<not> success r \<and> error r \<noteq> None)
   \<and> (\<exists>r. fst (getAllUsers (env_of None) (oracle_failing q_all_users fk_violation)) = Inr r
          \<and> r = fetch_failed ''Failed to fetch users'')
   \<and> \<not> u_success (fst (uploadFileToFTP sample_process_env ftp_put_fails
        \<lparr>name = ''a.png'', content = ''x''\<rparr> ''products''))
   \<and> u_error (fst (uploadFileToFTP sample_process_env ftp_put_fails
        \<lparr>name = ''a.png'', content = ''x''\<rparr> ''products'')) \<noteq> None
   \<and> (\<exists>res. uploadMultipleFilesToFTP_call sample_process_env ftp_put_fails
              [\<lparr>name = ''a.png'', content = ''x''\<rparr>] ''products'' = Inr [res]
          \<and> \<not> u_success res \<and> u_error res \<noteq> None)
   \<and> getSalesStats_call sample_dates (env_of None) db_orders week
       = Inr (getSalesStats sample_dates (env_of None) db_orders week)
   \<and> sales_success (getSalesStats sample_dates (env_of None) db_orders week)
   \<and> checkPermission_call env_client_throws db0 chief_admin = Inr False"
proof -
  have ct: "createClient_throws env_client_throws \<noteq> None"
    by (simp add: env_client_throws_def)
  have f: "fault (env_failing (Some ''u1'') UpdateProfileRole fk_violation) UpdateProfileRole
      \<noteq> None"
    by (simp add: env_failing_def)
  have pf: "put_error ftp_put_fails (''/'' @ ''products'' @ ''/''
      @ make_filename ftp_put_fails \<lparr>name = ''a.png'', content = ''x''\<rparr>) \<noteq> None"
    by (simp add: ftp_put_fails_def)
  have ok: "createStaticClient_throws (env_of None) = None"
    "fault (env_of None) SelectOrders = None"
    by (simp_all add: env_of_def no_fault_def)
  have dp: "r_error (oracle_failing (q_delete_profile ''u2'') fk_violation
      (q_delete_profile ''u2'')) \<noteq> None"
    and us: "r_error (oracle_failing q_all_users fk_violation q_all_users) \<noteq> None"
    by (simp_all add: oracle_failing_def)
  note A = failures_become_results
    [where e = "env_failing (Some ''u1'') UpdateProfileRole fk_violation" and d = db0
      and t = "''u3''" and r = agent and pe = sample_process_env and fe = ftp_put_fails
      and folder = "''products''" and files = "[\<lparr>name = ''a.png'', content = ''x''\<rparr>]"]
  note B = failures_become_results
    [where e = "env_of (Some ''u1'')"
      and B = "oracle_failing (q_delete_profile ''u2'') fk_violation" and t = "''u2''"]
  note C = failures_become_results
    [where e = "env_of None" and B = "oracle_failing q_all_users fk_violation"
      and d = db_orders and L = sample_dates and p = week]
  note D = failures_become_results
    [where e = env_client_throws and d = db0 and required = chief_admin]
  note permission = D [THEN conjunct1]
  note many = A
    [THEN conjunct2, THEN conjunct2, THEN conjunct2, THEN conjunct2, THEN conjunct2,
      THEN conjunct2, THEN conjunct2, THEN conjunct2, THEN conjunct2, THEN conjunct2,
      THEN conjunct2, THEN conjunct2, THEN conjunct2, THEN conjunct2, THEN conjunct2,
      THEN conjunct2, THEN conjunct2, THEN conjunct2, THEN conjunct1]
  note promote = A [THEN conjunct2, THEN conjunct2, THEN conjunct2, THEN conjunct1]
  note upload = A
    [THEN conjunct2, THEN conjunct2, THEN conjunct2, THEN conjunct2, THEN conjunct2,
      THEN conjunct2, THEN conjunct2, THEN conjunct2, THEN conjunct2, THEN conjunct2,
      THEN conjunct2, THEN conjunct2, THEN conjunct2, THEN conjunct2, THEN conjunct2,
      THEN conjunct2, THEN conjunct2, THEN conjunct1]
  note delete_user = B
    [THEN conjunct2, THEN conjunct2, THEN conjunct2, THEN conjunct2, THEN conjunct2,
      THEN conjunct1]
  note users = C [THEN conjunct2, THEN conjunct2, THEN conjunct1]
  note sales = C
    [THEN conjunct2, THEN conjunct2, THEN conjunct2, THEN conjunct2, THEN conjunct2,
      THEN conjunct2, THEN conjunct2, THEN conjunct2, THEN conjunct2, THEN conjunct2,
      THEN conjunct2, THEN conjunct2, THEN conjunct2, THEN conjunct2, THEN conjunct1]
  from promote f have a1: "\<not> success (fst (promoteUser
      (env_failing (Some ''u1'') UpdateProfileRole fk_violation) db0 ''u3'' agent))"
    by blast
  with promote have a2: "error (fst (promoteUser
      (env_failing (Some ''u1'') UpdateProfileRole fk_violation) db0 ''u3'' agent)) \<noteq> None"
    by blast
  from upload [of "\<lparr>name = ''a.png'', content = ''x''\<rparr>"] pf
  have a3: "\<not> u_success (fst (uploadFileToFTP sample_process_env ftp_put_fails
      \<lparr>name = ''a.png'', content = ''x''\<rparr> ''products''))"
    by blast
  with upload [of "\<lparr>name = ''a.png'', content = ''x''\<rparr>"]
  have a4: "u_error (fst (uploadFileToFTP sample_process_env ftp_put_fails
      \<lparr>name = ''a.png'', content = ''x''\<rparr> ''products'')) \<noteq> None"
    by blast
  from delete_user dp have b: "\<exists>r. fst (deleteUser (env_of (Some ''u1''))
      (oracle_failing (q_delete_profile ''u2'') fk_violation) ''u2'') = Inr r
      \<and> \<not> success r \<and> error r \<noteq> None"
    by blast
  from users us have c: "\<exists>r. fst (getAllUsers (env_of None)
      (oracle_failing q_all_users fk_violation)) = Inr r
      \<and> r = fetch_failed ''Failed to fetch users''"
    by blast
  from sales ok have s: "getSalesStats_call sample_dates (env_of None) db_orders week
       = Inr (getSalesStats sample_dates (env_of None) db_orders week)
     \<and> sales_success (getSalesStats sample_dates (env_of None) db_orders week)"
    by blast
  from many obtain results where
    r1: "uploadMultipleFilesToFTP_call sample_process_env ftp_put_fails
          [\<lparr>name = ''a.png'', content = ''x''\<rparr>] ''products'' = Inr results"
    and r2: "results = map fst (uploadMultipleFilesToFTP sample_process_env ftp_put_fails
          [\<lparr>name = ''a.png'', content = ''x''\<rparr>] ''products'')"
    and r3: "\<forall>res \<in> set results. u_success res \<or> u_error res \<noteq> None"
    by blast
  from r2 have r4: "results = [fst (uploadFileToFTP sample_process_env ftp_put_fails
      \<lparr>name = ''a.png'', content = ''x''\<rparr> ''products'')]"
    by simp
  with r3 a3 have "u_error (fst (uploadFileToFTP sample_process_env ftp_put_fails
      \<lparr>name = ''a.png'', content = ''x''\<rparr> ''products'')) \<noteq> None"
    by simp
  with r1 r4 a3 have m: "\<exists>res. uploadMultipleFilesToFTP_call sample_process_env ftp_put_fails
        [\<lparr>name = ''a.png'', content = ''x''\<rparr>] ''products'' = Inr [res]
      \<and> \<not> u_success res \<and> u_error res \<noteq> None"
    by simp
  from permission ct
  have p: "checkPermission_call env_client_throws db0 chief_admin = Inr False"
    by auto
  show ?thesis
    using a1 a2 a3 a4 b c s m p by blast
qed

end
